theory Spec2Isabelle
  imports Complex_Main
begin

section \<open>Python values, strings and dictionaries\<close>

text \<open>
  Python strings are modelled as byte lists holding their UTF-8 encoding. Source literals
  with characters outside printable ASCII are written with \<open>unhex\<close> (two hexadecimal
  digits per byte); regular expressions are written with \<open>rx\<close>, where a backquote
  stands for the backslash of the source. Floats are modelled as exact reals.
\<close>

fun nib :: "char \<Rightarrow> bool \<times> bool \<times> bool \<times> bool" where
  "nib c =
    (if c = CHR ''1'' then (False, False, False, True)
     else if c = CHR ''2'' then (False, False, True, False)
     else if c = CHR ''3'' then (False, False, True, True)
     else if c = CHR ''4'' then (False, True, False, False)
     else if c = CHR ''5'' then (False, True, False, True)
     else if c = CHR ''6'' then (False, True, True, False)
     else if c = CHR ''7'' then (False, True, True, True)
     else if c = CHR ''8'' then (True, False, False, False)
     else if c = CHR ''9'' then (True, False, False, True)
     else if c = CHR ''A'' then (True, False, True, False)
     else if c = CHR ''B'' then (True, False, True, True)
     else if c = CHR ''C'' then (True, True, False, False)
     else if c = CHR ''D'' then (True, True, False, True)
     else if c = CHR ''E'' then (True, True, True, False)
     else if c = CHR ''F'' then (True, True, True, True)
     else (False, False, False, False))"

fun unhex :: "string \<Rightarrow> string" where
  "unhex (a # b # r) =
    (case nib a of (a3, a2, a1, a0) \<Rightarrow>
     case nib b of (b3, b2, b1, b0) \<Rightarrow> Char b0 b1 b2 b3 a0 a1 a2 a3 # unhex r)"
| "unhex r = []"

declare unhex.simps [simp del]

definition rx :: "string \<Rightarrow> string" where
  "rx s = map (\<lambda>c. if c = CHR 0x60 then CHR 0x5C else c) s"

datatype pyval =
    PNone
  | PBool bool
  | PNum real
  | PStr string
  | PList "pyval list"
  | PDict "(string \<times> pyval) list"

type_synonym pydict = "(string \<times> pyval) list"

text \<open>
  Exceptions: a pattern the regular expression library rejects (\<open>re.error\<close>), a
  dictionary value of the wrong type (TypeError, AttributeError), and an exception raised by
  the condition of a rule.
\<close>

datatype error = PatternError | IllTyped | ConditionError

text \<open>Truth value of a Python object, as \<open>if x:\<close> tests it.\<close>

fun truthy :: "pyval \<Rightarrow> bool" where
  "truthy PNone = False"
| "truthy (PBool b) = b"
| "truthy (PNum x) = (x \<noteq> 0)"
| "truthy (PStr s) = (s \<noteq> [])"
| "truthy (PList l) = (l \<noteq> [])"
| "truthy (PDict d) = (d \<noteq> [])"

text \<open>
  Dictionaries keep insertion order: \<open>d[k] = v\<close> replaces the value of an existing key
  in place and appends a new key; \<open>d.update(u)\<close> does so for every item of \<open>u\<close>.
\<close>

fun dict_get :: "(string \<times> 'v) list \<Rightarrow> string \<Rightarrow> 'v option" where
  "dict_get [] k = None"
| "dict_get ((k', v) # d) k = (if k' = k then Some v else dict_get d k)"

fun dict_set :: "(string \<times> 'v) list \<Rightarrow> string \<Rightarrow> 'v \<Rightarrow> (string \<times> 'v) list" where
  "dict_set [] k v = [(k, v)]"
| "dict_set ((k', v') # d) k v = (if k' = k then (k, v) # d else (k', v') # dict_set d k v)"

fun dict_update :: "(string \<times> 'v) list \<Rightarrow> (string \<times> 'v) list \<Rightarrow> (string \<times> 'v) list" where
  "dict_update d [] = d"
| "dict_update d ((k, v) # u) = dict_update (dict_set d k v) u"

definition get_or :: "pydict \<Rightarrow> string \<Rightarrow> pyval \<Rightarrow> pyval" where
  "get_or d k dflt = (case dict_get d k of None \<Rightarrow> dflt | Some v \<Rightarrow> v)"

text \<open>\<open>if d.get(k):\<close> and \<open>if d.get(k, False):\<close>\<close>

definition flag :: "pydict \<Rightarrow> string \<Rightarrow> bool" where
  "flag d k = truthy (get_or d k (PBool False))"

text \<open>A number as Python arithmetic and comparison read it (\<open>True\<close> is 1).\<close>

fun num_of :: "pyval \<Rightarrow> real option" where
  "num_of (PNum x) = Some x"
| "num_of (PBool b) = Some (if b then 1 else 0)"
| "num_of v = None"

text \<open>\<open>sub in text\<close>, \<open>s.startswith(p)\<close>, \<open>s.endswith(p)\<close> on strings.\<close>

definition startswith :: "string \<Rightarrow> string \<Rightarrow> bool" where
  "startswith s p = (take (length p) s = p)"

definition endswith :: "string \<Rightarrow> string \<Rightarrow> bool" where
  "endswith s p = (length p \<le> length s \<and> drop (length s - length p) s = p)"

fun py_in :: "string \<Rightarrow> string \<Rightarrow> bool" where
  "py_in sub [] = (sub = [])"
| "py_in sub (c # cs) = (startswith (c # cs) sub \<or> py_in sub cs)"

definition any_in :: "string list \<Rightarrow> string \<Rightarrow> bool" where
  "any_in ws text = list_ex (\<lambda>w. py_in w text) ws"

text \<open>
  \<open>s[:n]\<close> counts code points: a byte \<open>10xxxxxx\<close> continues the code point before it.
\<close>

definition is_cont :: "char \<Rightarrow> bool" where
  "is_cont c = (case c of Char b0 b1 b2 b3 b4 b5 b6 b7 \<Rightarrow> b7 \<and> \<not> b6)"

fun py_take :: "nat \<Rightarrow> string \<Rightarrow> string" where
  "py_take n [] = []"
| "py_take n (c # cs) =
    (if is_cont c then c # py_take n cs
     else (case n of 0 \<Rightarrow> [] | Suc m \<Rightarrow> c # py_take m cs))"

text \<open>\<open>xs[i:]\<close> for a signed start index, as Python clamps it.\<close>

definition py_slice_from :: "int \<Rightarrow> 'a list \<Rightarrow> 'a list" where
  "py_slice_from i xs =
    (if i < 0 then drop (nat (max (int (length xs) + i) 0)) xs else drop (nat i) xs)"

section \<open>interfaces.py\<close>

datatype security_level = LOW | MEDIUM | HIGH

text \<open>\<open>ActionType.TYPE\<close> is written \<open>TYPE_PLAIN\<close> (\<open>TYPE\<close> is reserved syntax).\<close>

datatype action_type =
    CLICK | CLICK_BUTTON | CLICK_LINK
  | TYPE_PLAIN | TYPE_PASSWORD | TYPE_EMAIL | TYPE_PHONE | TYPE_CARD | TYPE_PERSONAL
  | NAVIGATE | NAVIGATE_EXTERNAL | NAVIGATE_SUSPICIOUS
  | FORM_SUBMIT | PAYMENT | DELETE | SOCIAL_ACTION | LEGAL_ACTION | SCROLL | ANALYZE

fun action_value :: "action_type \<Rightarrow> string" where
  "action_value CLICK = ''click''"
| "action_value CLICK_BUTTON = ''click_button''"
| "action_value CLICK_LINK = ''click_link''"
| "action_value TYPE_PLAIN = ''type''"
| "action_value TYPE_PASSWORD = ''type_password''"
| "action_value TYPE_EMAIL = ''type_email''"
| "action_value TYPE_PHONE = ''type_phone''"
| "action_value TYPE_CARD = ''type_card''"
| "action_value TYPE_PERSONAL = ''type_personal''"
| "action_value NAVIGATE = ''navigate''"
| "action_value NAVIGATE_EXTERNAL = ''navigate_external''"
| "action_value NAVIGATE_SUSPICIOUS = ''navigate_suspicious''"
| "action_value FORM_SUBMIT = ''form_submit''"
| "action_value PAYMENT = ''payment''"
| "action_value DELETE = ''delete''"
| "action_value SOCIAL_ACTION = ''social_action''"
| "action_value LEGAL_ACTION = ''legal_action''"
| "action_value SCROLL = ''scroll''"
| "action_value ANALYZE = ''analyze''"

record risk_assessment =
  score :: real
  level :: string
  triggered_rules :: "string list"
  recommendations :: "string list"
  confidence :: pyval

record security_rule =
  name :: string
  pattern :: string
  rule_action_type :: "action_type option"
  risk_level :: string
  message :: string
  requires_confirmation :: bool
  regex :: bool
  condition :: "(pydict \<Rightarrow> error + bool) option"
  weight :: real
  context_keys :: "string list option"

record security_event =
  ev_timestamp :: pyval
  ev_action :: action_type
  ev_target :: string
  ev_risk_assessment :: risk_assessment
  ev_context :: pydict
  ev_confirmed :: bool
  ev_user_decision :: "string option"
  ev_confidence :: pyval

section \<open>audit_logger.py\<close>

record audit_stats =
  total_events :: nat
  blocked_actions :: nat
  confirmed_actions_count :: nat
  critical_events :: nat
  high_events :: nat
  medium_events :: nat
  low_events :: nat

record audit_logger =
  events :: "security_event list"
  max_events :: int
  stats :: audit_stats

definition AuditLogger :: "int \<Rightarrow> audit_logger" where
  "AuditLogger m =
    \<lparr>events = [], max_events = m,
     stats = \<lparr>total_events = 0, blocked_actions = 0, confirmed_actions_count = 0,
              critical_events = 0, high_events = 0, medium_events = 0, low_events = 0\<rparr>\<rparr>"

definition count_level :: "security_event \<Rightarrow> audit_stats \<Rightarrow> audit_stats" where
  "count_level e st =
    (if level (ev_risk_assessment e) = ''critical'' then st\<lparr>critical_events := critical_events st + 1\<rparr>
     else if level (ev_risk_assessment e) = ''high'' then st\<lparr>high_events := high_events st + 1\<rparr>
     else if level (ev_risk_assessment e) = ''medium'' then st\<lparr>medium_events := medium_events st + 1\<rparr>
     else st\<lparr>low_events := low_events st + 1\<rparr>)"

definition count_outcome :: "security_event \<Rightarrow> audit_stats \<Rightarrow> audit_stats" where
  "count_outcome e st =
    (if \<not> ev_confirmed e then st\<lparr>blocked_actions := blocked_actions st + 1\<rparr>
     else st\<lparr>confirmed_actions_count := confirmed_actions_count st + 1\<rparr>)"

definition log_event :: "security_event \<Rightarrow> audit_logger \<Rightarrow> audit_logger" where
  "log_event e a =
    (let evs = events a @ [e];
         st = count_outcome e (count_level e ((stats a)\<lparr>total_events := total_events (stats a) + 1\<rparr>))
     in a\<lparr>events := (if int (length evs) > max_events a
                      then py_slice_from (- max_events a) evs else evs),
          stats := st\<rparr>)"

definition get_stats :: "audit_logger \<Rightarrow> audit_stats" where
  "get_stats a = stats a"

text \<open>Logging a whole history, oldest event first.\<close>

definition log_all :: "security_event list \<Rightarrow> audit_logger \<Rightarrow> audit_logger" where
  "log_all es a = foldl (\<lambda>a e. log_event e a) a es"

section \<open>Library functions\<close>

text \<open>
  The standard library is not part of the repository. Its functions are parameters of the
  model, collected in one record: regular expressions (\<open>re.search\<close>, \<open>re.findall\<close>,
  \<open>re.sub\<close>, with their flags as the source passes them), \<open>urlparse(url).netloc\<close>,
  \<open>str.lower\<close>, \<open>str.strip\<close>, \<open>str.split\<close>, \<open>str(v)\<close> of a value that is not a string,
  \<open>json.dumps(d, sort_keys=True)\<close>, \<open>hashlib.md5(s.encode()).hexdigest()\<close>,
  \<open>datetime.isoformat\<close> and the order in which \<open>list(set(xs))\<close> enumerates a set.
  A call that can raise returns a sum.
\<close>

datatype re_match = MStr string | MTuple "string list"

datatype repl = Template string | Func "string list \<Rightarrow> string"

record pylib =
  re_search :: "string \<Rightarrow> string \<Rightarrow> error + bool"
  re_findall :: "string \<Rightarrow> string \<Rightarrow> error + re_match list"
  re_sub :: "string \<Rightarrow> repl \<Rightarrow> bool \<Rightarrow> string \<Rightarrow> string"
  urlparse_netloc :: "string \<Rightarrow> error + string"
  str_lower :: "string \<Rightarrow> string"
  str_strip :: "string \<Rightarrow> string"
  str_split :: "string \<Rightarrow> string list"
  py_str :: "pyval \<Rightarrow> string"
  json_dumps :: "pydict \<Rightarrow> string"
  md5_hexdigest :: "string \<Rightarrow> string"
  isoformat :: "int \<Rightarrow> string"
  list_of_set :: "string list \<Rightarrow> string list"

text \<open>A value inside an f-string: a string is inserted as it is.\<close>

definition fmt :: "pylib \<Rightarrow> pyval \<Rightarrow> string" where
  "fmt L v = (case v of PStr s \<Rightarrow> s | _ \<Rightarrow> py_str L v)"

text \<open>\<open>len(s)\<close> and \<open>s[-n:]\<close> of a string count code points.\<close>

definition py_len :: "string \<Rightarrow> nat" where
  "py_len s = length (filter (\<lambda>c. \<not> is_cont c) s)"

fun py_drop :: "nat \<Rightarrow> string \<Rightarrow> string" where
  "py_drop 0 s = s"
| "py_drop (Suc n) [] = []"
| "py_drop (Suc n) (c # cs) = py_drop n (dropWhile is_cont cs)"

definition py_last :: "nat \<Rightarrow> string \<Rightarrow> string" where
  "py_last n s = py_drop (py_len s - n) s"

section \<open>The outside world\<close>

text \<open>
  \<open>datetime.now()\<close> is read from a clock: reading number \<open>n\<close> of the run is \<open>clock n\<close>
  (microseconds). The module-level hash cache of utils.py, the lines the user will type
  and the calls received by the registered callbacks are part of the world as well.
  The console input is a finite sequence of lines; a read after its end raises EOFError.
\<close>

datatype user_input = Line string | Interrupt | InputFailure

record world =
  clock :: "nat \<Rightarrow> int"
  ticks :: nat
  action_hash_cache :: "(string \<times> (string \<times> int)) list"
  stdin :: "user_input list"
  delivered :: "(nat \<times> security_event \<times> error option) list"

definition now :: "world \<Rightarrow> int \<times> world" where
  "now w = (clock w (ticks w), w\<lparr>ticks := Suc (ticks w)\<rparr>)"

section \<open>utils.py\<close>

definition cache_ttl :: int where
  "cache_ttl = 10 * 60 * 1000000"

definition cache_key :: "pylib \<Rightarrow> action_type \<Rightarrow> string \<Rightarrow> pydict \<Rightarrow> string" where
  "cache_key L a target ctx =
    action_value a @ '':'' @ target @ '':'' @ fmt L (get_or ctx ''current_url'' (PStr ''''))"

text \<open>The digest that \<open>generate_action_hash\<close> computes when it does not answer from the cache.\<close>

definition fresh_hash :: "pylib \<Rightarrow> action_type \<Rightarrow> string \<Rightarrow> pydict \<Rightarrow> string" where
  "fresh_hash L a target ctx =
    take 16 (md5_hexdigest L
      (cache_key L a target ctx @ '':'' @ take 8 (md5_hexdigest L (json_dumps L ctx))))"

definition clean_hash_cache :: "world \<Rightarrow> world" where
  "clean_hash_cache w =
    (case now w of (t, w1) \<Rightarrow>
      w1\<lparr>action_hash_cache :=
            filter (\<lambda>(k, (h, ts)). \<not> (t - ts > cache_ttl)) (action_hash_cache w1)\<rparr>)"

definition store_hash :: "pylib \<Rightarrow> action_type \<Rightarrow> string \<Rightarrow> pydict \<Rightarrow> world \<Rightarrow> string \<times> world" where
  "store_hash L a target ctx w =
    (let action_hash = fresh_hash L a target ctx in
     case now w of (t, w1) \<Rightarrow>
       (action_hash,
        clean_hash_cache
          (w1\<lparr>action_hash_cache :=
                dict_set (action_hash_cache w1) (cache_key L a target ctx) (action_hash, t)\<rparr>)))"

definition generate_action_hash ::
    "pylib \<Rightarrow> action_type \<Rightarrow> string \<Rightarrow> pydict \<Rightarrow> world \<Rightarrow> string \<times> world" where
  "generate_action_hash L a target ctx w =
    (case dict_get (action_hash_cache w) (cache_key L a target ctx) of
       Some (h, ts) \<Rightarrow>
         (case now w of (t, w1) \<Rightarrow>
            if t - ts < cache_ttl then (h, w1) else store_hash L a target ctx w1)
     | None \<Rightarrow> store_hash L a target ctx w)"

definition extract_domain :: "pylib \<Rightarrow> string \<Rightarrow> string" where
  "extract_domain L url = (case urlparse_netloc L url of Inl e \<Rightarrow> '''' | Inr d \<Rightarrow> d)"

text \<open>
  \<open>is_external_domain\<close> catches every exception and answers False; with a current URL that
  is not a string, \<open>urlparse\<close> either raises or finds no domain.
\<close>

definition is_external_domain :: "pylib \<Rightarrow> pyval \<Rightarrow> string \<Rightarrow> bool" where
  "is_external_domain L current_url target_url =
    (case current_url of
       PStr c \<Rightarrow>
         (case urlparse_netloc L c of
            Inl e \<Rightarrow> False
          | Inr current_domain \<Rightarrow>
              (case urlparse_netloc L target_url of
                 Inl e \<Rightarrow> False
               | Inr target_domain \<Rightarrow>
                   if current_domain = [] \<or> target_domain = [] then False
                   else target_domain \<noteq> current_domain))
     | _ \<Rightarrow> False)"

definition suspicious_tlds :: "string list" where
  "suspicious_tlds = [''.tk'', ''.ml'', ''.ga'', ''.cf'', ''.gq'', ''.xyz'', ''.top'', ''.club'']"

definition suspicious_keywords :: "string list" where
  "suspicious_keywords = [''phishing'', ''malware'', ''scam'', ''hack'', ''exploit'']"

definition is_suspicious_domain :: "pylib \<Rightarrow> string \<Rightarrow> bool" where
  "is_suspicious_domain L domain =
    (let domain_lower = str_lower L domain in
     list_ex (\<lambda>tld. endswith domain_lower tld) suspicious_tlds
     \<or> list_ex (\<lambda>keyword. py_in keyword domain_lower) suspicious_keywords)"

definition word_parol :: string where
  "word_parol =
    unhex ''D0BFD0B0D180D0BED0BBD18C''"

text \<open>\<open>m.group()\<close> is the head of the group list, \<open>m.group(i)\<close> its element \<open>i\<close>.\<close>

definition group :: "string list \<Rightarrow> nat \<Rightarrow> string" where
  "group g i = (if i < length g then g ! i else '''')"

definition mask_sensitive_data :: "pylib \<Rightarrow> string \<Rightarrow> string" where
  "mask_sensitive_data L text0 =
    (if text0 = [] then text0
     else
       let text1 = re_sub L (rx ''`b`d{4}[- ]?`d{4}[- ]?`d{4}[- ]?`d{4}`b'')
                     (Func (\<lambda>g. py_take 4 (group g 0) @ '' **** **** '' @ py_last 4 (group g 0)))
                     False text0;
           text2 = re_sub L (rx ''`b(CVV|CVC)[:`s]*`d{3,4}`b'') (Template (rx ''`1: ***''))
                     True text1;
           text3 = (if py_in word_parol (str_lower L text2) \<or> py_in ''password'' (str_lower L text2)
                    then re_sub L (''('' @ word_parol @ rx ''|password)[:`s]*[^`s]+'')
                           (Template (rx ''`1: *******'')) True text2
                    else text2);
           text4 = re_sub L (rx ''`b([A-Za-z0-9._%+-]+)@([A-Za-z0-9.-]+`.[A-Z|a-z]{2,})`b'')
                     (Func (\<lambda>g. py_take 3 (group g 1) @ ''***@'' @ group g 2))
                     False text3
       in re_sub L
            (rx ''`b(`+7|8)[`s-]?`(?`d{3}`)?[`s-]?`d{3}[`s-]?`d{2}[`s-]?`d{2}`b'')
            (Func (\<lambda>g. py_take 4 (group g 0) @ '' *** ** '' @ py_last 2 (group g 0)))
            False text4)"

section \<open>pattern_matcher.py\<close>

definition default_patterns :: "(string \<times> (string \<times> string) list) list" where
  "default_patterns =
    [(''personal_data'',
      [(''email'',
        rx ''`b[A-Za-z0-9._%+-]+@[A-Za-z0-9.-]+`.[A-Z|a-z]{2,}`b''),
       (''phone_ru'',
        rx ''`b(`+7|8)[`s-]?`(?`d{3}`)?[`s-]?`d{3}[`s-]?`d{2}[`s-]?`d{2}`b''),
       (''phone_international'',
        rx ''`b`+`d{1,3}[`s-]?`d{1,14}`b''),
       (''passport'',
        rx ''`b`d{4}[- ]?`d{6}`b''),
       (''inn'',
        rx ''`b`d{10,12}`b''),
       (''snils'',
        rx ''`b`d{3}-`d{3}-`d{3} `d{2}`b''),
       (''name'',
        rx ''`b(?:['' @ unhex ''D090'' @ ''-'' @ unhex ''D0AFD081'' @ '']['' @ unhex ''D0B0''
          @ ''-'' @ unhex ''D18FD191'' @ rx '']+(?:`s+['' @ unhex ''D090'' @ ''-''
          @ unhex ''D0AFD081'' @ '']['' @ unhex ''D0B0'' @ ''-'' @ unhex ''D18FD191''
          @ rx '']+){1,2}|[A-Z][a-z]+(?:`s+[A-Z][a-z]+){1,2})`b''),
       (''address'',
        rx ''`b(?:'' @ unhex ''D183D0BB'' @ rx ''`.|'' @ unhex ''D183D0BBD0B8D186D0B0'' @ ''|''
          @ unhex ''D0BFD180'' @ rx ''`.|'' @ unhex ''D0BFD180D0BED181D0BFD0B5D0BAD182'' @ ''|''
          @ unhex ''D0BFD0B5D180'' @ rx ''`.|'' @ unhex ''D0BFD0B5D180D0B5D183D0BBD0BED0BA''
          @ ''|'' @ unhex ''D0B4'' @ rx ''`.|'' @ unhex ''D0B4D0BED0BC'' @ ''|''
          @ unhex ''D0BAD0B2'' @ rx ''`.|'' @ unhex ''D0BAD0B2D0B0D180D182D0B8D180D0B0''
          @ rx '')`b.*?`b`d+`b'')]),
     (''financial_data'',
      [(''card_number'',
        rx ''`b`d{4}[- ]?`d{4}[- ]?`d{4}[- ]?`d{4}`b''),
       (''cvv'',
        rx ''`b`d{3,4}`b''),
       (''expiry_date'',
        rx ''`b(0[1-9]|1[0-2])[/-](2[0-9]|3[0-9])`b''),
       (''iban'',
        rx ''`b[A-Z]{2}`d{2}[A-Z0-9]{1,30}`b''),
       (''swift'',
        rx ''`b[A-Z]{6}[A-Z0-9]{2}([A-Z0-9]{3})?`b''),
       (''bank_account'',
        rx ''`b`d{20}`b''),
       (''amount'',
        rx ''`b`d+[.,]`d{2}`s*(?:'' @ unhex ''D180D183D0B1'' @ ''|'' @ unhex ''D180''
          @ ''|usd|eur|'' @ unhex ''E282AC'' @ rx ''|$)`b'')]),
     (''sensitive_keywords'',
      [(''password'',
        rx ''`b('' @ unhex ''D0BFD0B0D180D0BED0BBD18C'' @ ''|password|pwd|pass|''
          @ unhex ''D0BAD0BBD18ED187'' @ ''|key|pin|'' @ unhex ''D0BAD0BED0B4'' @ ''.*''
          @ unhex ''D0B4D0BED181D182D183D0BF'' @ rx ''|secret.*key)`b''),
       (''secret'',
        rx ''`b('' @ unhex ''D181D0B5D0BAD180D0B5D182'' @ ''|secret|confidential|private|''
          @ unhex ''D0BFD180D0B8D0B2D0B0D182D0BDD18BD0B9'' @ ''|''
          @ unhex ''D0BAD0BED0BDD184D0B8D0B4D0B5D0BDD186D0B8D0B0D0BBD18CD0BDD18BD0B9''
          @ rx '')`b''),
       (''security'',
        rx ''`b('' @ unhex ''D0B1D0B5D0B7D0BED0BFD0B0D181D0BDD0BED181D182D18C''
          @ rx ''|security|auth|token|api.?key|access.*token)`b''),
       (''login'',
        rx ''`b('' @ unhex ''D0BBD0BED0B3D0B8D0BD''
          @ rx ''|login|username|user.*name|account.*name)`b''),
       (''authorization'',
        rx ''`b('' @ unhex ''D0B0D0B2D182D0BED180D0B8D0B7D0B0D186D0B8D18F'' @ ''|authorization|''
          @ unhex ''D0B0D0B2D182D0BED180D0B8D0B7D0BED0B2D0B0D182D18CD181D18F''
          @ rx ''|authenticate)`b'')]),
     (''url_patterns'',
      [(''http'',
        rx ''http://[^`s]+''),
       (''https'',
        rx ''https://[^`s]+''),
       (''ip_address'',
        rx ''`b`d{1,3}`.`d{1,3}`.`d{1,3}`.`d{1,3}`b''),
       (''local_path'',
        rx ''[A-Za-z]:``[^``].*|`/[^`/].*'')]),
     (''dangerous_patterns'',
      [(''javascript'',
        rx ''javascript:|<`s*script`s*>|eval`(|alert`(|document`.cookie''),
       (''sql_injection'',
        rx ''`b(?:union`s+select|select`s+.*`s+from|insert`s+into|delete`s+from|drop`s+table)`b''),
       (''xss'',
        rx ''<`s*(?:script|iframe|object|embed)`s*>|on`w+`s*='')])]"

fun flatten_match :: "re_match \<Rightarrow> string list" where
  "flatten_match (MTuple ms) = filter (\<lambda>m. m \<noteq> []) ms"
| "flatten_match (MStr m) = (if m \<noteq> [] then [m] else [])"

text \<open>The inner loop of \<open>find_patterns\<close>: a pattern whose search raises is skipped.\<close>

fun category_results ::
    "pylib \<Rightarrow> string \<Rightarrow> (string \<times> string) list \<Rightarrow> (string \<times> string list) list
      \<Rightarrow> (string \<times> string list) list" where
  "category_results L text [] res = res"
| "category_results L text ((pattern_name, pat) # ps) res =
    (case re_findall L pat text of
       Inl e \<Rightarrow> category_results L text ps res
     | Inr matches \<Rightarrow>
         (if matches \<noteq> [] then
            (let matches_list = concat (map flatten_match matches) in
             if matches_list \<noteq> []
             then category_results L text ps (dict_set res pattern_name matches_list)
             else category_results L text ps res)
          else category_results L text ps res))"

fun scan_categories ::
    "pylib \<Rightarrow> string \<Rightarrow> (string \<times> (string \<times> string) list) list
      \<Rightarrow> (string \<times> (string \<times> string list) list) list
      \<Rightarrow> (string \<times> (string \<times> string list) list) list" where
  "scan_categories L text [] results = results"
| "scan_categories L text ((category, category_patterns) # cs) results =
    (let cr = category_results L text category_patterns [] in
     if cr \<noteq> [] then scan_categories L text cs (dict_set results category cr)
     else scan_categories L text cs results)"

definition find_patterns ::
    "pylib \<Rightarrow> (string \<times> (string \<times> string) list) list \<Rightarrow> string \<Rightarrow> string
      \<Rightarrow> (string \<times> (string \<times> string list) list) list" where
  "find_patterns L pats text pattern_type =
    (if pattern_type = ''all'' then scan_categories L text pats []
     else (case dict_get pats pattern_type of
             Some category_patterns \<Rightarrow> scan_categories L text [(pattern_type, category_patterns)] []
           | None \<Rightarrow> []))"

definition results_value :: "(string \<times> (string \<times> string list) list) list \<Rightarrow> pyval" where
  "results_value results =
    PDict (map (\<lambda>(category, rs). (category, PDict (map (\<lambda>(n, ms). (n, PList (map PStr ms))) rs)))
             results)"

definition total_patterns :: "(string \<times> (string \<times> string list) list) list \<Rightarrow> nat" where
  "total_patterns results = sum_list (map (\<lambda>(category, rs). sum_list (map (\<lambda>(n, ms). length ms) rs)) results)"

definition mean :: "real list \<Rightarrow> real \<Rightarrow> real" where
  "mean factors dflt = (if factors \<noteq> [] then sum_list factors / real (length factors) else dflt)"

definition extract_sensitive_data ::
    "pylib \<Rightarrow> (string \<times> (string \<times> string) list) list \<Rightarrow> string \<Rightarrow> pydict" where
  "extract_sensitive_data L pats text =
    (let results = find_patterns L pats text ''all'';
         has = (\<lambda>category. dict_get results category \<noteq> None);
         total = total_patterns results;
         contains_passwords =
           (case dict_get results ''sensitive_keywords'' of
              Some keywords \<Rightarrow> dict_get keywords ''password'' \<noteq> None | None \<Rightarrow> False);
         contains_financial = has ''financial_data'';
         contains_contact_info =
           (case dict_get results ''personal_data'' of
              Some personal \<Rightarrow>
                dict_get personal ''email'' \<noteq> None \<or> dict_get personal ''phone_ru'' \<noteq> None
                \<or> dict_get personal ''phone_international'' \<noteq> None
            | None \<Rightarrow> False);
         contains_personal_data = has ''personal_data'';
         contains_dangerous = has ''dangerous_patterns'';
         confidence_factors =
           (if contains_passwords then [0.9] else [])
           @ (if contains_financial then [0.8] else [])
           @ (if contains_dangerous then [0.95] else [])
           @ (if total > 0 then [min (real total * 0.2) 1] else [])
     in [(''patterns'', results_value results),
         (''stats'', PDict
            [(''total_patterns'', PNum (real total)),
             (''has_personal_data'', PBool (has ''personal_data'')),
             (''has_financial_data'', PBool (has ''financial_data'')),
             (''has_sensitive_keywords'', PBool (has ''sensitive_keywords'')),
             (''has_dangerous_patterns'', PBool (has ''dangerous_patterns''))]),
         (''context'', PDict
            [(''contains_passwords'', PBool contains_passwords),
             (''contains_financial'', PBool contains_financial),
             (''contains_contact_info'', PBool contains_contact_info),
             (''contains_personal_data'', PBool contains_personal_data),
             (''contains_dangerous'', PBool contains_dangerous),
             (''confidence'', PNum (mean confidence_factors 0))]),
         (''masked_text'', PStr (mask_sensitive_data L text)),
         (''metadata'', PDict
            [(''text_length'', PNum (real (py_len text))),
             (''word_count'', PNum (real (length (str_split L text)))),
             (''has_urls'', PBool (has ''url_patterns'')),
             (''extraction_time'', PStr ''timestamp'')])])"

section \<open>context_analyzer.py\<close>

definition keyword_patterns :: "(string \<times> string list) list" where
  "keyword_patterns =
    [(''payment'',
      [unhex ''D0BAD183D0BFD0B8D182D18C'',
       unhex ''D0BED0BFD0BBD0B0D182D0B8D182D18C'',
       unhex ''D186D0B5D0BDD0B0'',
       unhex ''D181D182D0BED0B8D0BCD0BED181D182D18C'',
       unhex ''D187D0B5D0BA'',
       ''checkout'',
       ''buy'',
       ''purchase'',
       ''cart'',
       unhex ''D0BAD0BED180D0B7D0B8D0BD'',
       unhex ''D0BED0BFD0BBD0B0D182'']),
     (''login'',
      [unhex ''D0B2D0BED0B9D182D0B8'',
       unhex ''D0B2D185D0BED0B4'',
       unhex ''D0BBD0BED0B3D0B8D0BD'',
       ''sign in'',
       ''log in'',
       unhex ''D0B0D0B2D182D0BED180D0B8D0B7D0B0D186D0B8D18F'',
       ''account'',
       unhex ''D0B0D0BAD0BAD0B0D183D0BDD182'']),
     (''registration'',
      [unhex ''D180D0B5D0B3D0B8D181D182D180D0B0D186D0B8D18F'',
       unhex ''D0B7D0B0D180D0B5D0B3D0B8D181D182D180D0B8D180D0BED0B2D0B0D182D18CD181D18F'',
       ''sign up'',
       ''register'',
       unhex ''D181D0BED0B7D0B4D0B0D182D18C'' @ '' '' @ unhex ''D0B0D0BAD0BAD0B0D183D0BDD182'']),
     (''social'',
      [unhex ''D0BFD0BED181D182'',
       unhex ''D0BFD183D0B1D0BBD0B8D0BAD0B0D186D0B8D18F'',
       unhex ''D0BFD0BED0B4D0B5D0BBD0B8D182D18CD181D18F'',
       ''share'',
       ''comment'',
       unhex ''D0BAD0BED0BCD0BCD0B5D0BDD182D0B0D180D0B8D0B9'',
       ''like'',
       unhex ''D0BBD0B0D0B9D0BA'',
       unhex ''D180D0B5D0BFD0BED181D182'']),
     (''delete'',
      [unhex ''D183D0B4D0B0D0BBD0B8D182D18C'',
       unhex ''D183D0B4D0B0D0BBD0B5D0BDD0B8D0B5'',
       unhex ''D181D182D0B5D180D0B5D182D18C'',
       unhex ''D0BED187D0B8D181D182D0B8D182D18C'',
       ''delete'',
       ''remove'',
       ''clear'',
       unhex ''D0BED182D0BCD0B5D0BDD0B8D182D18C'',
       unhex ''D0BED182D0BCD0B5D0BDD0B0'']),
     (''download'',
      [unhex ''D181D0BAD0B0D187D0B0D182D18C'',
       unhex ''D0B7D0B0D0B3D180D183D0B7D0B8D182D18C'',
       ''download'',
       ''upload'',
       unhex ''D184D0B0D0B9D0BB'',
       unhex ''D0B4D0BED0BAD183D0BCD0B5D0BDD182'']),
     (''legal'',
      [unhex ''D181D0BED0B3D0BBD0B0D188D0B5D0BDD0B8D0B5'',
       unhex ''D183D181D0BBD0BED0B2D0B8D18F'',
       unhex ''D0BFD180D0B0D0B2D0B8D0BBD0B0'',
       ''terms'',
       ''agreement'',
       ''policy'',
       unhex ''D0BFD0BED0BBD0B8D182D0B8D0BAD0B0'']),
     (''contact'',
      [unhex ''D0BAD0BED0BDD182D0B0D0BAD182D18B'',
       unhex ''D0BED0B1D180D0B0D182D0BDD0B0D18F'' @ '' '' @ unhex ''D181D0B2D18FD0B7D18C'',
       ''contact'',
       ''support'',
       unhex ''D0BFD0BED0B4D0B4D0B5D180D0B6D0BAD0B0'']),
     (''search'',
      [unhex ''D0BFD0BED0B8D181D0BA'',
       unhex ''D0BDD0B0D0B9D182D0B8'',
       ''search'',
       ''find'',
       unhex ''D0B8D181D0BAD0B0D182D18C'']),
     (''navigation'',
      [unhex ''D0B3D0BBD0B0D0B2D0BDD0B0D18F'',
       ''home'',
       unhex ''D0BDD0B0D0B7D0B0D0B4'',
       ''back'',
       unhex ''D0B2D0BFD0B5D180D0B5D0B4'',
       ''forward'',
       unhex ''D0BCD0B5D0BDD18E'',
       ''menu'']),
     (''settings'',
      [unhex ''D0BDD0B0D181D182D180D0BED0B9D0BAD0B8'',
       ''settings'',
       unhex ''D0BFD180D0BED184D0B8D0BBD18C'',
       ''profile'',
       unhex ''D0B0D0BAD0BAD0B0D183D0BDD182'',
       ''account''])]"

definition domain_categories :: "(string \<times> string list) list" where
  "domain_categories =
    [(''social'',
      [''facebook.com'',
       ''twitter.com'',
       ''instagram.com'',
       ''vk.com'',
       ''tiktok.com'',
       ''linkedin.com'']),
     (''shopping'',
      [''amazon.com'',
       ''aliexpress.com'',
       ''ebay.com'',
       ''wildberries.ru'',
       ''ozon.ru'',
       ''yandex.market'']),
     (''banking'',
      [''sberbank.ru'',
       ''tinkoff.ru'',
       ''alfabank.ru'',
       ''vtb.ru'',
       ''raiffeisen.ru'',
       ''gazprombank.ru'']),
     (''email'',
      [''gmail.com'',
       ''mail.ru'',
       ''yandex.ru'',
       ''outlook.com'',
       ''yahoo.com'',
       ''rambler.ru'']),
     (''government'',
      [''gov.ru'',
       ''gosuslugi.ru'',
       ''nalog.ru'',
       ''pfr.gov.ru'',
       ''mkgu.mos.ru'']),
     (''search'',
      [''google.com'',
       ''yandex.ru'',
       ''bing.com'',
       ''duckduckgo.com''])]"

definition page_type_words :: "(string \<times> string list) list" where
  "page_type_words =
    [(''is_login_page'',
      [''login'',
       ''signin'',
       ''auth'',
       unhex ''D0B2D185D0BED0B4'',
       unhex ''D0B2D0BED0B9D182D0B8'',
       ''account'']),
     (''is_payment_page'',
      [''checkout'',
       ''payment'',
       ''pay'',
       ''cart'',
       unhex ''D0BAD0BED180D0B7D0B8D0BD'',
       unhex ''D0BED0BFD0BBD0B0D182'',
       ''order'']),
     (''is_registration_page'',
      [''register'',
       ''signup'',
       unhex ''D180D0B5D0B3D0B8D181D182D180D0B0D186D0B8D18F'',
       ''create.account'']),
     (''is_settings_page'',
      [''settings'',
       unhex ''D0BDD0B0D181D182D180D0BED0B9D0BAD0B8'',
       ''profile'',
       unhex ''D0BFD180D0BED184D0B8D0BBD18C'',
       ''account'']),
     (''is_admin_page'',
      [''admin'',
       unhex ''D0B0D0B4D0BCD0B8D0BD'',
       ''dashboard'',
       unhex ''D0BFD0B0D0BDD0B5D0BBD18C'',
       ''control'']),
     (''is_social_page'',
      [''facebook'',
       ''twitter'',
       ''vk'',
       ''instagram'',
       ''tiktok'',
       ''social'']),
     (''is_search_page'',
      [''search'',
       unhex ''D0BFD0BED0B8D181D0BA'',
       ''google'',
       ''yandex'',
       ''bing'']),
     (''is_email_page'',
      [''mail'',
       ''email'',
       unhex ''D0BFD0BED187D182D0B0'',
       ''gmail'',
       ''outlook''])]"

definition word_kupit :: string where
  "word_kupit =
    unhex ''D0BAD183D0BFD0B8D182D18C''"

definition word_oplatit :: string where
  "word_oplatit =
    unhex ''D0BED0BFD0BBD0B0D182D0B8D182D18C''"

definition word_registratsiya :: string where
  "word_registratsiya =
    unhex ''D180D0B5D0B3D0B8D181D182D180D0B0D186D0B8D18F''"

definition rec_password_detected :: string where
  "rec_password_detected =
    unhex ''F09F9490'' @ '' '' @ unhex ''D09ED0B1D0BDD0B0D180D183D0B6D0B5D0BD'' @ '' ''
      @ unhex ''D0B2D0B2D0BED0B4'' @ '' '' @ unhex ''D0BFD0B0D180D0BED0BBD18F'' @ '' - ''
      @ unhex ''D0B1D183D0B4D18CD182D0B5'' @ '' ''
      @ unhex ''D0BED181D182D0BED180D0BED0B6D0BDD18B''"

definition rec_financial_detected :: string where
  "rec_financial_detected =
    unhex ''F09F92B0'' @ '' '' @ unhex ''D09ED0B1D0BDD0B0D180D183D0B6D0B5D0BDD18B'' @ '' ''
      @ unhex ''D184D0B8D0BDD0B0D0BDD181D0BED0B2D18BD0B5'' @ '' ''
      @ unhex ''D0B4D0B0D0BDD0BDD18BD0B5'' @ '' - ''
      @ unhex ''D0BFD180D0BED0B2D0B5D180D18CD182D0B5'' @ '' ''
      @ unhex ''D0B1D0B5D0B7D0BED0BFD0B0D181D0BDD0BED181D182D18C''"

definition rec_external_domain :: string where
  "rec_external_domain =
    unhex ''F09F8C8D'' @ '' '' @ unhex ''D09FD0B5D180D0B5D185D0BED0B4'' @ '' ''
      @ unhex ''D0BDD0B0'' @ '' '' @ unhex ''D0B2D0BDD0B5D188D0BDD0B8D0B9'' @ '' ''
      @ unhex ''D0B4D0BED0BCD0B5D0BD'' @ '' - '' @ unhex ''D183D0B1D0B5D0B4D0B8D182D0B5D181D18C''
      @ '' '' @ unhex ''D0B2'' @ '' '' @ unhex ''D0B5D0B3D0BE'' @ '' ''
      @ unhex ''D0BDD0B0D0B4D0B5D0B6D0BDD0BED181D182D0B8''"

definition rec_suspicious_domain :: string where
  "rec_suspicious_domain =
    unhex ''F09F9AAB'' @ '' ''
      @ unhex ''D09FD0BED0B4D0BED0B7D180D0B8D182D0B5D0BBD18CD0BDD18BD0B9'' @ '' ''
      @ unhex ''D0B4D0BED0BCD0B5D0BD'' @ '' - ''
      @ unhex ''D180D0B5D0BAD0BED0BCD0B5D0BDD0B4D183D0B5D182D181D18F'' @ '' ''
      @ unhex ''D0BED182D0BCD0B5D0BDD0B8D182D18C'' @ '' ''
      @ unhex ''D0BFD0B5D180D0B5D185D0BED0B4''"

definition rec_http_payment :: string where
  "rec_http_payment =
    unhex ''F09F9493'' @ '' '' @ unhex ''D09ED0BFD0BBD0B0D182D0B0'' @ '' ''
      @ unhex ''D187D0B5D180D0B5D0B7'' @ '' HTTP - ''
      @ unhex ''D0BDD0B5D0B1D0B5D0B7D0BED0BFD0B0D181D0BDD0BE'' @ '', ''
      @ unhex ''D0B8D181D0BFD0BED0BBD18CD0B7D183D0B9D182D0B5'' @ '' HTTPS''"

definition analyze_page_type :: "pylib \<Rightarrow> string \<Rightarrow> pydict" where
  "analyze_page_type L url =
    (if url = [] then []
     else map (\<lambda>(key, ws). (key, PBool (any_in ws (str_lower L url)))) page_type_words)"

text \<open>
  The first category, in table order, one of whose domains ends the lowered domain;
  \<open>other\<close> when there is none.
\<close>

fun domain_category_of :: "pylib \<Rightarrow> string \<Rightarrow> (string \<times> string list) list \<Rightarrow> string" where
  "domain_category_of L domain_lower [] = ''other''"
| "domain_category_of L domain_lower ((category, domains) # cs) =
    (if list_ex (\<lambda>domain_pattern. endswith domain_lower (str_lower L domain_pattern)) domains
        \<and> category \<noteq> ''other''
     then category else domain_category_of L domain_lower cs)"

definition analyze_domain :: "pylib \<Rightarrow> string \<Rightarrow> pydict" where
  "analyze_domain L url =
    (let domain = extract_domain L url in
     if domain = [] then []
     else
       let domain_category = domain_category_of L (str_lower L domain) domain_categories in
       [(''domain'', PStr domain),
        (''domain_category'', PStr domain_category),
        (''is_suspicious_domain'', PBool (is_suspicious_domain L domain)),
        (''is_trusted_domain'', PBool (domain_category \<in> set [''banking'', ''government'', ''email'']))])"

definition analyze_navigation_url :: "pylib \<Rightarrow> string \<Rightarrow> pyval \<Rightarrow> pydict" where
  "analyze_navigation_url L target_url current_url =
    [(''is_external_domain'', PBool (is_external_domain L current_url target_url)),
     (''is_https'', PBool (startswith target_url ''https://'')),
     (''is_http'', PBool (startswith target_url ''http://'')),
     (''is_suspicious_url'', PBool (is_suspicious_domain L (extract_domain L target_url)))]"

fun keyword_hits :: "string \<Rightarrow> (string \<times> string list) list \<Rightarrow> pydict \<Rightarrow> pydict" where
  "keyword_hits text_lower [] result = result"
| "keyword_hits text_lower ((category, keywords) # cs) result =
    (if any_in keywords text_lower
     then keyword_hits text_lower cs (dict_set result (''contains_'' @ category) (PBool True))
     else keyword_hits text_lower cs result)"

definition analyze_keywords :: "pylib \<Rightarrow> string \<Rightarrow> pydict" where
  "analyze_keywords L text =
    (if text = [] then [] else keyword_hits (str_lower L text) keyword_patterns [])"

text \<open>
  \<open>_analyze_sequence\<close> reads the history as a list of dictionaries whose
  \<open>action_type\<close> entries are strings; anything else raises.
\<close>

fun as_dict :: "pyval \<Rightarrow> pydict option" where
  "as_dict (PDict d) = Some d"
| "as_dict v = None"

fun as_str :: "pyval \<Rightarrow> string option" where
  "as_str (PStr s) = Some s"
| "as_str v = None"

definition analyze_sequence :: "pylib \<Rightarrow> pyval \<Rightarrow> error + pydict" where
  "analyze_sequence L history =
    (if \<not> truthy history then Inr []
     else
       (case history of
          PList hs \<Rightarrow>
            (let recent = (if length hs \<ge> 5 then py_slice_from (- 5) hs else hs) in
             if list_ex (\<lambda>h. as_dict h = None) recent then Inl IllTyped
             else
               let ds = map (\<lambda>h. case as_dict h of Some d \<Rightarrow> d | None \<Rightarrow> []) recent;
                   action_types = map (\<lambda>d. get_or d ''action_type'' (PStr '''')) ds;
                   targets = map (\<lambda>d. str_lower L (fmt L (get_or d ''target'' (PStr '''')))) ds;
                   is_login_flow =
                     (PStr (action_value TYPE_EMAIL) \<in> set action_types
                      \<and> PStr (action_value TYPE_PASSWORD) \<in> set action_types);
                   is_payment_flow =
                     (list_ex (py_in ''payment'') targets \<or> list_ex (py_in word_kupit) targets
                      \<or> list_ex (py_in word_oplatit) targets);
                   is_registration_flow =
                     (list_ex (py_in word_registratsiya) targets \<or> list_ex (py_in ''register'') targets)
               in if list_ex (\<lambda>a. as_str a = None) action_types then Inl IllTyped
                  else
                    let typed = filter (\<lambda>a. case as_str a of Some s \<Rightarrow> startswith s ''TYPE_''
                                                              | None \<Rightarrow> False) action_types
                    in Inr [(''is_login_flow'', PBool is_login_flow),
                            (''is_payment_flow'', PBool is_payment_flow),
                            (''is_registration_flow'', PBool is_registration_flow),
                            (''is_form_filling'', PBool (length typed \<ge> 2)),
                            (''recent_action_types'', PList action_types),
                            (''recent_targets'', PList (map PStr (take 3 targets)))])
        | _ \<Rightarrow> Inl IllTyped))"

definition analyze_action_context :: "action_type \<Rightarrow> string \<Rightarrow> pydict \<Rightarrow> pydict" where
  "analyze_action_context a target ctx =
    (if a = TYPE_PASSWORD \<and> flag ctx ''is_login_page''
       then [(''is_password_in_login_context'', PBool True)] else [])
    @ (if a = PAYMENT \<and> flag ctx ''is_payment_page''
       then [(''is_payment_in_checkout_context'', PBool True)] else [])
    @ (if a = DELETE \<and> flag ctx ''is_settings_page''
       then [(''is_delete_in_settings_context'', PBool True)] else [])
    @ (if a = SOCIAL_ACTION \<and> flag ctx ''is_social_page''
       then [(''is_social_action_in_context'', PBool True)] else [])"

text \<open>
  \<open>sum(len(matches) for category in patterns.values() for matches in category.values())\<close>
  over the dictionary under \<open>detected_patterns\<close>, which is the one \<open>analyze\<close> stored in its
  first step.
\<close>

fun pv_values :: "pyval \<Rightarrow> pyval list" where
  "pv_values (PDict d) = map snd d"
| "pv_values v = []"

fun pv_len :: "pyval \<Rightarrow> nat" where
  "pv_len (PList l) = length l"
| "pv_len (PDict d) = length d"
| "pv_len (PStr s) = py_len s"
| "pv_len v = 0"

definition count_detected :: "pyval \<Rightarrow> nat" where
  "count_detected patterns = sum_list (map pv_len (concat (map pv_values (pv_values patterns))))"

definition calculate_confidence :: "pydict \<Rightarrow> real" where
  "calculate_confidence ctx =
    (let confidence_factors =
       (if flag ctx ''detected_patterns''
        then [min (real (count_detected (get_or ctx ''detected_patterns'' PNone)) * 0.2) 1] else [])
       @ (if flag ctx ''is_login_page'' \<and> flag ctx ''contains_login'' then [0.8] else [])
       @ (if flag ctx ''is_payment_page'' \<and> flag ctx ''contains_payment'' then [0.9] else [])
       @ (if flag ctx ''is_login_flow'' then [0.85] else [])
       @ (if flag ctx ''is_payment_flow'' then [0.95] else [])
       @ (if flag ctx ''is_trusted_domain'' then [0.7] else [])
     in mean confidence_factors 0.3)"

definition generate_recommendations :: "pydict \<Rightarrow> string list" where
  "generate_recommendations ctx =
    (if flag ctx ''contains_passwords'' then [rec_password_detected] else [])
    @ (if flag ctx ''contains_financial'' then [rec_financial_detected] else [])
    @ (if flag ctx ''is_external_domain'' then [rec_external_domain] else [])
    @ (if flag ctx ''is_suspicious_domain'' then [rec_suspicious_domain] else [])
    @ (if \<not> truthy (get_or ctx ''is_https'' (PBool True)) \<and> flag ctx ''contains_payment''
       then [rec_http_payment] else [])"

definition is_navigation_kind :: "action_type \<Rightarrow> bool" where
  "is_navigation_kind a = (a \<in> set [NAVIGATE, NAVIGATE_EXTERNAL, NAVIGATE_SUSPICIOUS])"

text \<open>Step 1 of \<open>analyze\<close>: the patterns found in the target.\<close>

definition analyze_patterns :: "pylib \<Rightarrow> (string \<times> (string \<times> string) list) list \<Rightarrow> string \<Rightarrow> pydict
    \<Rightarrow> pydict" where
  "analyze_patterns L pats target raw_context =
    (let pattern_analysis = extract_sensitive_data L pats target
     in dict_update raw_context
          [(''pattern_analysis'', PDict pattern_analysis),
           (''detected_patterns'', get_or pattern_analysis ''patterns'' (PDict []))])"

text \<open>Steps 2 and 3: page type and domain of the current URL.\<close>

definition analyze_page :: "pylib \<Rightarrow> pyval \<Rightarrow> pydict \<Rightarrow> error + pydict" where
  "analyze_page L current_url ctx =
    (if truthy current_url then
       (case current_url of
          PStr url \<Rightarrow>
            Inr (dict_update (dict_update ctx (analyze_page_type L url)) (analyze_domain L url))
        | _ \<Rightarrow> Inl IllTyped)
     else Inr ctx)"

text \<open>Step 4: the target URL of a navigation.\<close>

definition analyze_navigation :: "pylib \<Rightarrow> action_type \<Rightarrow> string \<Rightarrow> pyval \<Rightarrow> pydict
    \<Rightarrow> error + pydict" where
  "analyze_navigation L a target current_url ctx =
    (if is_navigation_kind a then
       (let target_url = get_or ctx ''target_url'' (PStr target) in
        if truthy target_url then
          (case target_url of
             PStr u \<Rightarrow> Inr (dict_update ctx (analyze_navigation_url L u current_url))
           | _ \<Rightarrow> Inl IllTyped)
        else Inr ctx)
     else Inr ctx)"

text \<open>Steps 7 to 9: the action in its page, the confidence and the recommendations.\<close>

definition analyze_finish :: "action_type \<Rightarrow> string \<Rightarrow> pydict \<Rightarrow> pydict" where
  "analyze_finish a target ctx =
    (let ctx7 = dict_update ctx (analyze_action_context a target ctx);
         ctx8 = dict_set ctx7 ''confidence'' (PNum (calculate_confidence ctx7))
     in dict_set ctx8 ''recommendations'' (PList (map PStr (generate_recommendations ctx8))))"

definition analyze :: "pylib \<Rightarrow> (string \<times> (string \<times> string) list) list \<Rightarrow> action_type \<Rightarrow> string
    \<Rightarrow> pydict \<Rightarrow> error + pydict" where
  "analyze L pats a target raw_context =
    (let ctx1 = analyze_patterns L pats target raw_context;
         current_url = get_or ctx1 ''current_url'' (PStr [])
     in case analyze_page L current_url ctx1 of
          Inl e \<Rightarrow> Inl e
        | Inr ctx3 \<Rightarrow>
           (case analyze_navigation L a target current_url ctx3 of
              Inl e \<Rightarrow> Inl e
            | Inr ctx4 \<Rightarrow>
               (let ctx5 = dict_update ctx4 (analyze_keywords L target) in
                case (case dict_get ctx5 ''recent_history'' of
                        Some history \<Rightarrow>
                          (case analyze_sequence L history of
                             Inl e \<Rightarrow> Inl e | Inr seq \<Rightarrow> Inr (dict_update ctx5 seq))
                      | None \<Rightarrow> Inr ctx5) of
                  Inl e \<Rightarrow> Inl e
                | Inr ctx6 \<Rightarrow> Inr (analyze_finish a target ctx6))))"

section \<open>rule_engine.py\<close>

text \<open>
  The non-ASCII bytes of the rule patterns and messages are those of the source file.
\<close>

definition rule_payment_click :: security_rule where
  "rule_payment_click =
    \<lparr>name = ''payment_click'',
     pattern = ''('' @ unhex ''E28093E288ABE28094C389E28093C3B8E28093E2888FE28094C387E28094C3A5''
       @ ''|''
       @ unhex ''E28093C3A6E28093C3B8E28093C2AAE28093E2889EE28094C387E28093E2888FE28094C387E28094C3A5''
       @ ''|''
       @ unhex ''E28093C3B8E28093C3A6E28093E288ABE28094C389E28093C3B8E28093E288ABE28093E2889E''
       @ ''|'' @ unhex ''E28093E28891E28093E2889EE28093E288ABE28093E2889EE28093E28891''
       @ ''|checkout|buy now|add to cart|''
       @ unhex ''E28093C3A6E28094C391E28093C3A6E28094C384E28093C2BAE28093E2888FE28094C387E28094C3A5''
       @ ''|''
       @ unhex ''E28093E28891E28093E2889EE28093E288ABE28093E2889EE28093E28891E28093E2889EE28094C387E28094C3A5''
       @ ''|'' @ unhex ''E28093E288ABE28093C3A6E28094C384E28093E28891E28093E2888FE28093CEA9''
       @ ''|basket)'',
     rule_action_type = Some CLICK_BUTTON,
     risk_level = ''high'',
     message = unhex ''EFA3BFC3BCC3ADE2889E'' @ '' ''
       @ unhex ''E28093C3B6E28093CEA9E28093C3A6E28093C3B8E28093E288ABE28093E2889E'' @ '' ''
       @ unhex ''E28093C3A6E28093C3B8E28093C2AAE28093E2889EE28094C387E28094C3A3'' @ ''/''
       @ unhex ''E28093C3B8E28093C3A6E28093E288ABE28094C389E28093C3B8E28093E288ABE28093E2888F'',
     requires_confirmation = True,
     regex = True,
     condition = None,
     weight = 2,
     context_keys = None\<rparr>"

definition rule_card_data_input :: security_rule where
  "rule_card_data_input =
    \<lparr>name = ''card_data_input'',
     pattern = ''('' @ unhex ''E28093E288ABE28093E2889EE28094C384E28094C387'' @ ''|card|''
       @ unhex ''E28093CEA9E28093C3A6E28093C2BAE28093C2B5E28094C384'' @ ''.*''
       @ unhex ''E28093E288ABE28093E2889EE28094C384E28094C387'' @ ''|cvv|cvc|''
       @ unhex ''E28094C385E28094C384E28093C3A6E28093E288AB'' @ ''.*''
       @ unhex ''E28093C2A5E28093C2B5E28093CF80E28094C385E28094C387E28093E289A4E28093E2888FE28094C3A8''
       @ ''|expir|valid|''
       @ unhex ''E28093C3B8E28093C2AAE28093E2889EE28094C385E28094C387E28093E2888FE28093E288AB''
       @ '')'',
     rule_action_type = Some TYPE_PLAIN,
     risk_level = ''critical'',
     message = unhex ''EFA3BFC3BCC3ADE289A5'' @ '' ''
       @ unhex ''E28093C3ADE28093E289A4E28093C3A6E28093C2A5'' @ '' ''
       @ unhex ''E28093C2A5E28093E2889EE28093CEA9E28093CEA9E28094C3A3E28094C396'' @ '' ''
       @ unhex ''E28093E288ABE28093E2889EE28094C384E28094C387E28094C3A3'',
     requires_confirmation = True,
     regex = True,
     condition = None,
     weight = 3,
     context_keys = None\<rparr>"

definition rule_password_input :: security_rule where
  "rule_password_input =
    \<lparr>name = ''password_input'',
     pattern = ''('' @ unhex ''E28093C3B8E28093E2889EE28094C384E28093C3A6E28093C2AAE28094C3A5''
       @ ''|password|pwd|pass|'' @ unhex ''E28093E288ABE28093C2AAE28094C3A9E28094C3A1''
       @ ''|key|'' @ unhex ''E28094C385E28093C2B5E28093E288ABE28094C384E28093C2B5E28094C387''
       @ ''|secret|pin|'' @ unhex ''E28093E288ABE28093C3A6E28093C2A5'' @ ''.*''
       @ unhex ''E28093C2A5E28093C3A6E28094C385E28094C387E28094C389E28093C3B8'' @ '')'',
     rule_action_type = Some TYPE_PLAIN,
     risk_level = ''critical'',
     message = unhex ''EFA3BFC3BCC3AEC3AA'' @ '' ''
       @ unhex ''E28093C3ADE28093E289A4E28093C3A6E28093C2A5'' @ '' ''
       @ unhex ''E28093C3B8E28093E2889EE28094C384E28093C3A6E28093C2AAE28094C3A8'' @ ''/''
       @ unhex ''E28093E288ABE28093C2AAE28094C3A9E28094C3A1E28093E2889E'',
     requires_confirmation = True,
     regex = True,
     condition = None,
     weight = 3,
     context_keys = None\<rparr>"

definition rule_email_input :: security_rule where
  "rule_email_input =
    \<lparr>name = ''email_input'',
     pattern = ''(@|email|'' @ unhex ''E28093C2B5E28093C2BAE28093C2B5E28093CF80E28093C2AA''
       @ ''|'' @ unhex ''E28093C3B8E28093C3A6E28094C3A1E28094C387E28093E2889E''
       @ rx ''|e-mail|mail`.|gmail`.|yandex`.)'',
     rule_action_type = Some TYPE_PLAIN,
     risk_level = ''medium'',
     message = unhex ''EFA3BFC3BCC3ACC39F'' @ '' ''
       @ unhex ''E28093C3ADE28093E289A4E28093C3A6E28093C2A5'' @ '' email'',
     requires_confirmation = True,
     regex = True,
     condition = None,
     weight = 1.5,
     context_keys = None\<rparr>"

definition rule_external_navigation :: security_rule where
  "rule_external_navigation =
    \<lparr>name = ''external_navigation'',
     pattern = rx ''(https?://|www`.|`.com|`.ru|`.org|`.net)'',
     rule_action_type = Some NAVIGATE,
     risk_level = ''low'',
     message = unhex ''EFA3BFC3BCC3A5C3A7'' @ '' ''
       @ unhex ''E28093C3B9E28093E2889EE28093E289A4E28093E2888FE28093E289A5E28093E2889EE28094C39CE28093E2888FE28094C3A8''
       @ '' '' @ unhex ''E28093CEA9E28093E2889E'' @ '' ''
       @ unhex ''E28093E289A4E28093CEA9E28093C2B5E28094C3A0E28093CEA9E28093E2888FE28093CF80''
       @ '' '' @ unhex ''E28094C384E28093C2B5E28094C385E28094C389E28094C384E28094C385'',
     requires_confirmation = True,
     regex = True,
     condition = None,
     weight = 1,
     context_keys = None\<rparr>"

definition rule_non_https_navigation :: security_rule where
  "rule_non_https_navigation =
    \<lparr>name = ''non_https_navigation'',
     pattern = ''^http://'',
     rule_action_type = Some NAVIGATE,
     risk_level = ''medium'',
     message = unhex ''EFA3BFC3BCC3AEC3AC'' @ '' ''
       @ unhex ''E28093C3B9E28093E2889EE28093E289A4E28093E2888FE28093E289A5E28093E2889EE28094C39CE28093E2888FE28094C3A8''
       @ '' '' @ unhex ''E28093C3B8E28093C3A6'' @ '' HTTP (''
       @ unhex ''E28093CEA9E28093C2B5E28093C2B1E28093C2B5E28093E28891E28093C3A6E28093C3B8E28093E2889EE28094C385E28093CEA9E28093C3A6''
       @ '')'',
     requires_confirmation = True,
     regex = True,
     condition = None,
     weight = 1.5,
     context_keys = None\<rparr>"

definition rule_context_login_flow_password :: security_rule where
  "rule_context_login_flow_password =
    \<lparr>name = ''context_login_flow_password'',
     pattern = '''',
     rule_action_type = Some TYPE_PASSWORD,
     risk_level = ''high'',
     message = unhex ''EFA3BFC3BCC3AEC3AA'' @ '' ''
       @ unhex ''E28093C3ADE28093E289A4E28093C3A6E28093C2A5'' @ '' ''
       @ unhex ''E28093C3B8E28093E2889EE28094C384E28093C3A6E28093C2AAE28094C3A8'' @ '' ''
       @ unhex ''E28093E289A4'' @ '' ''
       @ unhex ''E28093E288ABE28093C3A6E28093CEA9E28094C387E28093C2B5E28093E288ABE28094C385E28094C387E28093C2B5''
       @ '' '' @ unhex ''E28093C2AAE28093C3A6E28093E289A5E28093E2888FE28093CEA9E28093E2889E'',
     requires_confirmation = True,
     regex = False,
     condition = Some (\<lambda>ctx. Inr (flag ctx ''is_login_page'')),
     weight = 2.5,
     context_keys = None\<rparr>"

definition rule_context_payment_flow :: security_rule where
  "rule_context_payment_flow =
    \<lparr>name = ''context_payment_flow'',
     pattern = '''',
     rule_action_type = Some PAYMENT,
     risk_level = ''critical'',
     message = unhex ''EFA3BFC3BCC3ADE2888F'' @ '' ''
       @ unhex ''E28093C3BBE28093C3B8E28093C2AAE28093E2889EE28094C387E28093E2889E'' @ '' ''
       @ unhex ''E28093E289A4'' @ '' ''
       @ unhex ''E28093E288ABE28093C3A6E28093CEA9E28094C387E28093C2B5E28093E288ABE28094C385E28094C387E28093C2B5''
       @ '' checkout'',
     requires_confirmation = True,
     regex = False,
     condition = Some (\<lambda>ctx. Inr (flag ctx ''is_payment_page'')),
     weight = 3,
     context_keys = None\<rparr>"

definition default_rules :: "security_rule list" where
  "default_rules =
    [rule_payment_click, rule_card_data_input, rule_password_input, rule_email_input,
     rule_external_navigation, rule_non_https_navigation,
     rule_context_login_flow_password, rule_context_payment_flow]"

text \<open>
  One pass of the loop over the rules: does the rule trigger? A pattern the regular
  expression library rejects and a condition that raises both raise out of the loop.
\<close>

definition rule_matches ::
    "pylib \<Rightarrow> action_type \<Rightarrow> string \<Rightarrow> pydict \<Rightarrow> security_rule \<Rightarrow> error + bool" where
  "rule_matches L a target ctx rule =
    (if (case rule_action_type rule of Some ra \<Rightarrow> ra \<noteq> a | None \<Rightarrow> False) then Inr False
     else if a \<in> set [NAVIGATE, NAVIGATE_EXTERNAL] then Inr False
     else
       (case (case condition rule of Some c \<Rightarrow> c ctx | None \<Rightarrow> Inr True) of
          Inl e \<Rightarrow> Inl e
        | Inr holds \<Rightarrow>
            if \<not> holds then Inr False
            else if pattern rule \<noteq> [] then
              (if regex rule then re_search L (pattern rule) target
               else Inr (py_in (str_lower L (pattern rule)) (str_lower L target)))
            else Inr (condition rule \<noteq> None)))"

fun triggered_by ::
    "pylib \<Rightarrow> action_type \<Rightarrow> string \<Rightarrow> pydict \<Rightarrow> security_rule list \<Rightarrow> security_rule list
      \<Rightarrow> error + security_rule list" where
  "triggered_by L a target ctx [] triggered = Inr triggered"
| "triggered_by L a target ctx (rule # rs) triggered =
    (case rule_matches L a target ctx rule of
       Inl e \<Rightarrow> Inl e
     | Inr hit \<Rightarrow> triggered_by L a target ctx rs (if hit then triggered @ [rule] else triggered))"

definition risk_level_multiplier :: "string \<Rightarrow> real" where
  "risk_level_multiplier l =
    (case dict_get [(''low'', 0.3), (''medium'', 0.6), (''high'', 0.9), (''critical'', 1)] l of
       Some m \<Rightarrow> m | None \<Rightarrow> 0.5)"

text \<open>The threshold chain that both \<open>evaluate_rules\<close> and \<open>assess_risk\<close> apply to their score.\<close>

definition score_level :: "real \<Rightarrow> string" where
  "score_level normalized_score =
    (if normalized_score \<ge> 80 then ''critical''
     else if normalized_score \<ge> 60 then ''high''
     else if normalized_score \<ge> 30 then ''medium''
     else ''low'')"

definition rule_risk_of :: "action_type \<Rightarrow> pydict \<Rightarrow> security_rule list \<Rightarrow> risk_assessment" where
  "rule_risk_of a ctx triggered =
    (let risk_score = foldl (\<lambda>s rule. s + weight rule * risk_level_multiplier (risk_level rule)) 0 triggered;
         max_possible = foldl (\<lambda>s rule. s + weight rule) 0 triggered;
         normalized_score = (if max_possible > 0 then risk_score / max_possible * 100 else 0);
         nav = (a \<in> set [NAVIGATE, NAVIGATE_EXTERNAL])
     in \<lparr>score = (if nav then 5 else normalized_score),
         level = (if nav then ''low'' else score_level normalized_score),
         triggered_rules = map name triggered,
         recommendations = [],
         confidence = get_or ctx ''confidence'' (PNum 0.5)\<rparr>)"

definition evaluate_rules ::
    "pylib \<Rightarrow> security_rule list \<Rightarrow> action_type \<Rightarrow> string \<Rightarrow> pydict
      \<Rightarrow> error + (security_rule list \<times> risk_assessment)" where
  "evaluate_rules L rs a target ctx =
    (case triggered_by L a target ctx rs [] of
       Inl e \<Rightarrow> Inl e
     | Inr triggered \<Rightarrow> Inr (triggered, rule_risk_of a ctx triggered))"

definition add_rule :: "security_rule \<Rightarrow> security_rule list \<Rightarrow> security_rule list" where
  "add_rule rule rs = rs @ [rule]"

definition remove_rule :: "string \<Rightarrow> security_rule list \<Rightarrow> security_rule list" where
  "remove_rule rule_name rs = filter (\<lambda>r. name r \<noteq> rule_name) rs"

section \<open>risk_assessor.py\<close>

definition action_weights :: "(string \<times> real) list" where
  "action_weights =
    [(''type'', 0.5),
     (''type_password'', 80),
     (''type_email'', 2),
     (''type_phone'', 1.5),
     (''type_card'', 89),
     (''type_personal'', 2),
     (''click'', 1),
     (''click_button'', 1),
     (''click_link'', 0.8),
     (''navigate'', 0.2),
     (''navigate_external'', 0.3),
     (''navigate_suspicious'', 1),
     (''form_submit'', 1.5),
     (''payment'', 60),
     (''delete'', 25),
     (''social_action'', 1.5),
     (''legal_action'', 1.5),
     (''scroll'', 0.1),
     (''analyze'', 0)]"

definition context_weights :: "(string \<times> real) list" where
  "context_weights =
    [(''is_payment_page'', 1.3),
     (''is_login_page'', 1.1),
     (''is_registration_page'', 1.2),
     (''is_settings_page'', 1.1),
     (''is_admin_page'', 1.5),
     (''is_social_page'', 1.1),
     (''is_search_page'', 0.9),
     (''is_email_page'', 1.1),
     (''contains_financial'', 1.5),
     (''contains_passwords'', 1.8),
     (''contains_personal_data'', 1.3),
     (''contains_contact_info'', 1.1),
     (''is_external_domain'', 1),
     (''is_suspicious_domain'', 1.2),
     (''is_trusted_domain'', 0.9),
     (''is_https'', 0.9),
     (''is_http'', 1.1),
     (''is_login_flow'', 1.3),
     (''is_payment_flow'', 1.8),
     (''is_registration_flow'', 1.3),
     (''is_form_filling'', 1.2),
     (''is_password_in_login_context'', 1.4),
     (''is_payment_in_checkout_context'', 1.6),
     (''is_delete_in_settings_context'', 1.7),
     (''is_social_action_in_context'', 1.1),
     (''confidence_high'', 1.1),
     (''confidence_low'', 0.9)]"

definition rec_needs_confirmation :: string where
  "rec_needs_confirmation =
    unhex ''E29AA0EFB88F'' @ '' '' @ unhex ''D0A2D180D0B5D0B1D183D0B5D182D181D18F'' @ '' ''
      @ unhex ''D0BFD0BED0B4D182D0B2D0B5D180D0B6D0B4D0B5D0BDD0B8D0B5'' @ '' ''
      @ unhex ''D0BFD0BED0BBD18CD0B7D0BED0B2D0B0D182D0B5D0BBD18F''"

definition rec_passwords_not_logged :: string where
  "rec_passwords_not_logged =
    unhex ''F09F9490'' @ '' '' @ unhex ''D09FD0B0D180D0BED0BBD0B8'' @ '' ''
      @ unhex ''D0BDD0B8D0BAD0BED0B3D0B4D0B0'' @ '' '' @ unhex ''D0BDD0B5'' @ '' ''
      @ unhex ''D0B4D0BED0BBD0B6D0BDD18B'' @ '' ''
      @ unhex ''D185D180D0B0D0BDD0B8D182D18CD181D18F'' @ '' '' @ unhex ''D0B2'' @ '' ''
      @ unhex ''D0BBD0BED0B3D0B0D185''"

definition rec_financial_attention :: string where
  "rec_financial_attention =
    unhex ''F09F92B0'' @ '' '' @ unhex ''D0A4D0B8D0BDD0B0D0BDD181D0BED0B2D18BD0B5'' @ '' ''
      @ unhex ''D0BED0BFD0B5D180D0B0D186D0B8D0B8'' @ '' ''
      @ unhex ''D182D180D0B5D0B1D183D18ED182'' @ '' '' @ unhex ''D0BED181D0BED0B1D0BED0B3D0BE''
      @ '' '' @ unhex ''D0B2D0BDD0B8D0BCD0B0D0BDD0B8D18F''"

definition rec_suspicious_cancel :: string where
  "rec_suspicious_cancel =
    unhex ''F09F9AAB'' @ '' ''
      @ unhex ''D09FD0BED0B4D0BED0B7D180D0B8D182D0B5D0BBD18CD0BDD18BD0B9'' @ '' ''
      @ unhex ''D0B4D0BED0BCD0B5D0BD'' @ '', ''
      @ unhex ''D180D0B5D0BAD0BED0BCD0B5D0BDD0B4D183D0B5D182D181D18F'' @ '' ''
      @ unhex ''D0BED182D0BCD0B5D0BDD0B0''"

definition rec_http_insecure :: string where
  "rec_http_insecure =
    unhex ''F09F9493'' @ '' '' @ unhex ''D094D0B5D0B9D181D182D0B2D0B8D0B5'' @ '' ''
      @ unhex ''D0B2D18BD0BFD0BED0BBD0BDD18FD0B5D182D181D18F'' @ '' '' @ unhex ''D0BFD0BE''
      @ '' HTTP ('' @ unhex ''D0BDD0B5D0B1D0B5D0B7D0BED0BFD0B0D181D0BDD0BE'' @ '')''"

text \<open>
  The values of \<open>ActionType\<close> are lower-case ASCII, so \<open>action_type.value.lower()\<close> is the
  value itself.
\<close>

definition base_risk :: "action_type \<Rightarrow> real" where
  "base_risk a = (case dict_get action_weights (action_value a) of Some w \<Rightarrow> w | None \<Rightarrow> 1)"

definition is_navigation :: "action_type \<Rightarrow> bool" where
  "is_navigation a =
    (action_value a \<in> set [''navigate'', ''navigate_external'', ''navigate_suspicious''])"

fun context_modifiers ::
    "bool \<Rightarrow> pydict \<Rightarrow> (string \<times> real) list \<Rightarrow> real \<times> string list \<Rightarrow> real \<times> string list" where
  "context_modifiers nav ctx [] acc = acc"
| "context_modifiers nav ctx ((context_key, w) # ws) (context_modifier, triggered) =
    (if flag ctx context_key then
       (if nav then
          (if context_key \<in> set [''is_suspicious_domain'', ''is_http'', ''is_https'']
           then context_modifiers nav ctx ws
                  (context_modifier * w, triggered @ [''context_'' @ context_key])
           else context_modifiers nav ctx ws (context_modifier, triggered))
        else context_modifiers nav ctx ws
               (context_modifier * w, triggered @ [''context_'' @ context_key]))
     else context_modifiers nav ctx ws (context_modifier, triggered))"

definition context_weight :: "string \<Rightarrow> real" where
  "context_weight k = (case dict_get context_weights k of Some w \<Rightarrow> w | None \<Rightarrow> 1)"

definition risk_recommendations :: "action_type \<Rightarrow> string \<Rightarrow> pydict \<Rightarrow> string list" where
  "risk_recommendations a lvl ctx =
    (if lvl \<in> set [''high'', ''critical''] then [rec_needs_confirmation] else [])
    @ (if flag ctx ''contains_passwords'' then [rec_passwords_not_logged] else [])
    @ (if flag ctx ''contains_financial'' then [rec_financial_attention] else [])
    @ (if flag ctx ''is_suspicious_domain'' then [rec_suspicious_cancel] else [])
    @ (if \<not> truthy (get_or ctx ''is_https'' (PBool True)) \<and> base_risk a > 10
       then [rec_http_insecure] else [])"

definition confidence_modifier :: "real \<Rightarrow> real" where
  "confidence_modifier c =
    (if c > 0.7 then context_weight ''confidence_high''
     else if c < 0.3 then context_weight ''confidence_low'' else 1)"

text \<open>The score from the total risk: at most 100, and at most 25 for a navigation.\<close>

definition normalize_risk :: "action_type \<Rightarrow> real \<Rightarrow> real" where
  "normalize_risk a total_risk =
    (if is_navigation a then min (min (total_risk * 20) 100) 25 else min (total_risk * 20) 100)"

definition assess_risk :: "action_type \<Rightarrow> string \<Rightarrow> pydict \<Rightarrow> error + risk_assessment" where
  "assess_risk a target ctx =
    (case context_modifiers (is_navigation a) ctx context_weights (1, []) of
       (context_modifier, triggered) \<Rightarrow>
         (case num_of (get_or ctx ''confidence'' (PNum 0.5)) of
            None \<Rightarrow> Inl IllTyped
          | Some c \<Rightarrow>
              (let normalized_score =
                     normalize_risk a (base_risk a * context_modifier * confidence_modifier c)
               in Inr \<lparr>score = normalized_score,
                       level = score_level normalized_score,
                       triggered_rules = triggered,
                       recommendations = risk_recommendations a (score_level normalized_score) ctx,
                       confidence = get_or ctx ''confidence'' (PNum 0.5)\<rparr>)))"

section \<open>confirmation_requester.py\<close>

text \<open>
  The prompt loop of \<open>_get_user_decision\<close>. The text it prints is not modelled; building it
  reads the target, the assessment, the rules and the analysed context only.
\<close>

definition response_of :: "pylib \<Rightarrow> string \<Rightarrow> string" where
  "response_of L response_raw =
    (if response_raw \<noteq> [] then str_strip L (str_lower L response_raw) else '''')"

fun get_user_decision :: "pylib \<Rightarrow> user_input list \<Rightarrow> (bool \<times> string) \<times> user_input list" where
  "get_user_decision L [] = ((False, ''interrupted''), [])"
| "get_user_decision L (Interrupt # rest) = ((False, ''interrupted''), rest)"
| "get_user_decision L (InputFailure # rest) = ((False, ''input_error''), rest)"
| "get_user_decision L (Line response_raw # rest) =
    (let response = response_of L response_raw in
     if response = ''d'' then get_user_decision L rest
     else if response = ''y'' then ((True, ''approved''), rest)
     else if response = ''a'' then ((True, ''approved_all''), rest)
     else if response = ''n'' then ((False, ''blocked''), rest)
     else if response = ''q'' then ((False, ''task_aborted''), rest)
     else get_user_decision L rest)"

definition request_confirmation ::
    "pylib \<Rightarrow> string set \<Rightarrow> action_type \<Rightarrow> string \<Rightarrow> risk_assessment \<Rightarrow> pydict
      \<Rightarrow> security_rule list \<Rightarrow> world \<Rightarrow> (bool \<times> string) \<times> world" where
  "request_confirmation L auto_hashes a target ra ctx triggered w =
    (case generate_action_hash L a target ctx w of
       (action_hash, w1) \<Rightarrow>
         if action_hash \<in> auto_hashes then ((True, ''previously_confirmed''), w1)
         else (case get_user_decision L (stdin w1) of
                 (decision, rest) \<Rightarrow> (decision, w1\<lparr>stdin := rest\<rparr>)))"

section \<open>security_layer.py\<close>

record security_layer =
  security_level :: security_level
  patterns :: "(string \<times> (string \<times> string) list) list"
  rules :: "security_rule list"
  audit_logger :: audit_logger
  auto_confirm_hashes :: "string set"
  action_history :: "pydict list"
  confirmed_actions :: "string set"
  confirmation_callbacks :: "(security_event \<Rightarrow> error option) list"

definition SecurityLayer :: "security_level \<Rightarrow> security_layer" where
  "SecurityLayer lvl =
    \<lparr>security_level = lvl, patterns = default_patterns, rules = default_rules,
     audit_logger = AuditLogger 1000, auto_confirm_hashes = {}, action_history = [],
     confirmed_actions = {}, confirmation_callbacks = []\<rparr>"

definition add_to_history ::
    "pylib \<Rightarrow> pydict \<Rightarrow> security_layer \<Rightarrow> world \<Rightarrow> security_layer \<times> world" where
  "add_to_history L entry s w =
    (case now w of
       (t, w1) \<Rightarrow>
         (let history = action_history s @ [dict_set entry ''timestamp'' (PStr (isoformat L t))]
          in (s\<lparr>action_history :=
                   (if length history > 100 then py_slice_from (- 100) history else history)\<rparr>,
              w1)))"

text \<open>The event that \<open>log_action\<close> builds at time \<open>t\<close>.\<close>

definition action_event ::
    "pylib \<Rightarrow> int \<Rightarrow> action_type \<Rightarrow> string \<Rightarrow> risk_assessment \<Rightarrow> bool \<Rightarrow> pydict
      \<Rightarrow> security_event" where
  "action_event L t a target ra allowed ctx =
    \<lparr>ev_timestamp = PStr (isoformat L t), ev_action = a, ev_target = py_take 200 target,
     ev_risk_assessment = ra, ev_context = ctx, ev_confirmed = allowed,
     ev_user_decision = Some (if allowed then ''auto_allowed'' else ''auto_blocked''),
     ev_confidence = confidence ra\<rparr>"

definition log_action ::
    "pylib \<Rightarrow> action_type \<Rightarrow> string \<Rightarrow> risk_assessment \<Rightarrow> bool \<Rightarrow> pydict \<Rightarrow> audit_logger \<Rightarrow> world
      \<Rightarrow> audit_logger \<times> world" where
  "log_action L a target ra allowed ctx logger w =
    (case now w of
       (t, w1) \<Rightarrow> (log_event (action_event L t a target ra allowed ctx) logger, w1))"

text \<open>
  \<open>_notify_callbacks\<close>: every registered callback is called with the event, in order; an
  exception of a callback (\<open>Some e\<close>) is printed and the loop goes on.
\<close>

definition notify_callbacks ::
    "(security_event \<Rightarrow> error option) list \<Rightarrow> security_event \<Rightarrow> world \<Rightarrow> world" where
  "notify_callbacks callbacks event w =
    w\<lparr>delivered := delivered w @ map (\<lambda>(i, callback). (i, event, callback event)) (enumerate 0 callbacks)\<rparr>"

definition previously_confirmed :: risk_assessment where
  "previously_confirmed =
    \<lparr>score = 0, level = ''low'', triggered_rules = [''previously_confirmed''],
     recommendations = [], confidence = PNum 1\<rparr>"

text \<open>Lines 90 to 100 of \<open>check_action\<close>: the two assessments are combined.\<close>

definition fuse :: "pylib \<Rightarrow> risk_assessment \<Rightarrow> risk_assessment \<Rightarrow> risk_assessment" where
  "fuse L rule_risk ra =
    \<lparr>score = max (score rule_risk) (score ra),
     level = (if score rule_risk > score ra then level rule_risk else level ra),
     triggered_rules = list_of_set L (triggered_rules rule_risk @ triggered_rules ra),
     recommendations = recommendations ra,
     confidence = confidence ra\<rparr>"

definition callback_event ::
    "action_type \<Rightarrow> string \<Rightarrow> risk_assessment \<Rightarrow> pydict \<Rightarrow> bool \<Rightarrow> string \<Rightarrow> security_event" where
  "callback_event a target fa ctx allowed reason =
    \<lparr>ev_timestamp = get_or ctx ''timestamp'' (PStr ''''), ev_action = a, ev_target = target,
     ev_risk_assessment = fa, ev_context = ctx, ev_confirmed = allowed,
     ev_user_decision = Some reason, ev_confidence = confidence fa\<rparr>"

text \<open>
  The confirmation block, which the source has twice (over the threshold, and for a
  suspicious navigation under MEDIUM): ask, remember an approve-all, log, notify.
\<close>

definition confirm_path ::
    "pylib \<Rightarrow> action_type \<Rightarrow> string \<Rightarrow> risk_assessment \<Rightarrow> pydict \<Rightarrow> security_rule list \<Rightarrow> string
      \<Rightarrow> security_layer \<Rightarrow> world \<Rightarrow> (bool \<times> risk_assessment) \<times> security_layer \<times> world" where
  "confirm_path L a target fa ctx triggered action_hash s w =
    (case request_confirmation L (auto_confirm_hashes s) a target fa ctx triggered w of
       ((allowed, reason), w1) \<Rightarrow>
         (let s1 = (if allowed \<and> reason = ''approved_all''
                    then s\<lparr>confirmed_actions := insert action_hash (confirmed_actions s)\<rparr> else s)
          in case log_action L a target fa allowed ctx (audit_logger s1) w1 of
               (logger, w2) \<Rightarrow>
                 ((allowed, fa),
                  s1\<lparr>audit_logger := logger\<rparr>,
                  notify_callbacks (confirmation_callbacks s1)
                    (callback_event a target fa ctx allowed reason) w2)))"

text \<open>The confirmation for a medium risk under HIGH: ask and log.\<close>

definition confirm_only ::
    "pylib \<Rightarrow> action_type \<Rightarrow> string \<Rightarrow> risk_assessment \<Rightarrow> pydict \<Rightarrow> security_rule list
      \<Rightarrow> security_layer \<Rightarrow> world \<Rightarrow> (bool \<times> risk_assessment) \<times> security_layer \<times> world" where
  "confirm_only L a target fa ctx triggered s w =
    (case request_confirmation L (auto_confirm_hashes s) a target fa ctx triggered w of
       ((allowed, reason), w1) \<Rightarrow>
         (case log_action L a target fa allowed ctx (audit_logger s) w1 of
            (logger, w2) \<Rightarrow> ((allowed, fa), s\<lparr>audit_logger := logger\<rparr>, w2)))"

text \<open>A decision without a prompt: log it and return it.\<close>

definition decide_and_log ::
    "pylib \<Rightarrow> bool \<Rightarrow> action_type \<Rightarrow> string \<Rightarrow> risk_assessment \<Rightarrow> pydict
      \<Rightarrow> security_layer \<Rightarrow> world \<Rightarrow> (bool \<times> risk_assessment) \<times> security_layer \<times> world" where
  "decide_and_log L allowed a target fa ctx s w =
    (case log_action L a target fa allowed ctx (audit_logger s) w of
       (logger, w1) \<Rightarrow> ((allowed, fa), s\<lparr>audit_logger := logger\<rparr>, w1))"

text \<open>Steps 7 and 8 of \<open>check_action\<close>.\<close>

definition decide ::
    "pylib \<Rightarrow> action_type \<Rightarrow> string \<Rightarrow> risk_assessment \<Rightarrow> pydict \<Rightarrow> security_rule list \<Rightarrow> string
      \<Rightarrow> security_layer \<Rightarrow> world \<Rightarrow> (bool \<times> risk_assessment) \<times> security_layer \<times> world" where
  "decide L a target fa ctx triggered action_hash s w =
    (if score fa > 20 then confirm_path L a target fa ctx triggered action_hash s w
     else
       (case security_level s of
          LOW \<Rightarrow> decide_and_log L True a target fa ctx s w
        | MEDIUM \<Rightarrow>
            if a = NAVIGATE_SUSPICIOUS \<and> level fa \<in> set [''medium'', ''high'', ''critical'']
            then confirm_path L a target fa ctx triggered action_hash s w
            else decide_and_log L True a target fa ctx s w
        | HIGH \<Rightarrow>
            if level fa \<in> set [''high'', ''critical'']
            then decide_and_log L False a target fa ctx s w
            else if level fa = ''medium'' then confirm_only L a target fa ctx triggered s w
            else decide_and_log L True a target fa ctx s w))"

text \<open>Steps 1 and 2: the history entry and the analysed context.\<close>

definition raw_context :: "pydict option \<Rightarrow> pydict" where
  "raw_context raw = (case raw of None \<Rightarrow> [] | Some c \<Rightarrow> c)"

definition enter ::
    "pylib \<Rightarrow> action_type \<Rightarrow> string \<Rightarrow> pydict option \<Rightarrow> security_layer \<Rightarrow> world
      \<Rightarrow> security_layer \<times> world" where
  "enter L a target raw s w =
    add_to_history L
      [(''action_type'', PStr (action_value a)),
       (''target'', PStr (py_take 200 target)),
       (''url'', get_or (raw_context raw) ''current_url'' (PStr []))] s w"

definition check_action ::
    "pylib \<Rightarrow> action_type \<Rightarrow> string \<Rightarrow> pydict option \<Rightarrow> security_layer \<Rightarrow> world
      \<Rightarrow> error + ((bool \<times> risk_assessment) \<times> security_layer \<times> world)" where
  "check_action L a target raw s w =
    (case enter L a target raw s w of
       (s1, w1) \<Rightarrow>
         (case analyze L (patterns s1) a target (raw_context raw) of
            Inl e \<Rightarrow> Inl e
          | Inr ctx \<Rightarrow>
              (case generate_action_hash L a target ctx w1 of
                 (action_hash, w2) \<Rightarrow>
                   if action_hash \<in> confirmed_actions s1
                   then Inr ((True, previously_confirmed), s1, w2)
                   else
                     (case evaluate_rules L (rules s1) a target ctx of
                        Inl e \<Rightarrow> Inl e
                      | Inr (triggered, rule_risk) \<Rightarrow>
                          (case assess_risk a target ctx of
                             Inl e \<Rightarrow> Inl e
                           | Inr ra \<Rightarrow>
                               Inr (decide L a target (fuse L rule_risk ra) ctx triggered
                                      action_hash s1 w2))))))"

definition register_confirmation_callback ::
    "(security_event \<Rightarrow> error option) \<Rightarrow> security_layer \<Rightarrow> security_layer" where
  "register_confirmation_callback callback s =
    s\<lparr>confirmation_callbacks := confirmation_callbacks s @ [callback]\<rparr>"

section \<open>Definitions used in the statements\<close>

text \<open>The counters computed from a whole history of logged events.\<close>

definition history_stats :: "security_event list \<Rightarrow> audit_stats" where
  "history_stats es =
    \<lparr>total_events = length es,
     blocked_actions = length (filter (\<lambda>e. \<not> ev_confirmed e) es),
     confirmed_actions_count = length (filter ev_confirmed es),
     critical_events = length (filter (\<lambda>e. level (ev_risk_assessment e) = ''critical'') es),
     high_events = length (filter (\<lambda>e. level (ev_risk_assessment e) = ''high'') es),
     medium_events = length (filter (\<lambda>e. level (ev_risk_assessment e) = ''medium'') es),
     low_events =
       length (filter (\<lambda>e. level (ev_risk_assessment e) \<notin> {''critical'', ''high'', ''medium''}) es)\<rparr>"

text \<open>
  The action was approved for good before: the hash that \<open>check_action\<close> computes for it
  is in the confirmed set.
\<close>

definition memoized ::
    "pylib \<Rightarrow> action_type \<Rightarrow> string \<Rightarrow> pydict option \<Rightarrow> security_layer \<Rightarrow> world \<Rightarrow> bool" where
  "memoized L a target raw s w =
    (case enter L a target raw s w of
       (s1, w1) \<Rightarrow>
         (case analyze L (patterns s1) a target (raw_context raw) of
            Inl e \<Rightarrow> False
          | Inr ctx \<Rightarrow> fst (generate_action_hash L a target ctx w1) \<in> confirmed_actions s1))"

text \<open>
  A small instance of the library, to run the model on concrete inputs: no regular
  expression matches (the unbalanced pattern \<open>(\<close> is rejected), text is lower case and
  stripped already, URLs have no domain, a dictionary is serialised as its keys and the
  digest of a string is the string itself.
\<close>

definition demo_lib :: pylib where
  "demo_lib =
    \<lparr>re_search = (\<lambda>p t. if p = ''('' then Inl PatternError else Inr False),
     re_findall = (\<lambda>p t. Inr []),
     re_sub = (\<lambda>p r i t. t),
     urlparse_netloc = (\<lambda>u. Inr []),
     str_lower = (\<lambda>s. s),
     str_strip = (\<lambda>s. s),
     str_split = (\<lambda>s. if s = [] then [] else [s]),
     py_str = (\<lambda>v. []),
     json_dumps = (\<lambda>d. concat (map fst d)),
     md5_hexdigest = (\<lambda>s. s),
     isoformat = (\<lambda>t. []),
     list_of_set = remdups\<rparr>"

text \<open>A world whose clock stands still, with an empty hash cache and the given input lines.\<close>

definition demo_world :: "user_input list \<Rightarrow> world" where
  "demo_world inputs =
    \<lparr>clock = (\<lambda>n. 0), ticks = 0, action_hash_cache = [], stdin = inputs, delivered = []\<rparr>"

text \<open>\<open>SecurityRule(name="unbalanced", pattern="(", regex=True)\<close>: a pattern that does not compile.\<close>

definition unbalanced_rule :: security_rule where
  "unbalanced_rule =
    \<lparr>name = ''unbalanced'', pattern = ''('', rule_action_type = None, risk_level = ''medium'',
     message = [], requires_confirmation = True, regex = True, condition = None,
     weight = 1, context_keys = None\<rparr>"

section \<open>The audit log\<close>

lemma log_event_events:
  "events (log_event e a) =
    (if int (length (events a)) + 1 > max_events a
     then py_slice_from (- max_events a) (events a @ [e]) else events a @ [e])"
  by (simp add: log_event_def Let_def)

lemma log_event_max_events: "max_events (log_event e a) = max_events a"
  by (simp add: log_event_def Let_def)

lemma log_event_stats:
  "stats (log_event e a) =
     count_outcome e (count_level e ((stats a)\<lparr>total_events := total_events (stats a) + 1\<rparr>))"
  by (simp add: log_event_def Let_def)

lemma log_all_snoc: "log_all (es @ [e]) a = log_event e (log_all es a)"
  by (simp add: log_all_def)

lemma log_all_max_events: "max_events (log_all es a) = max_events a"
  by (induction es rule: rev_induct) (simp_all add: log_all_snoc log_event_max_events, simp add: log_all_def)

lemma history_stats_snoc:
  "history_stats (es @ [e]) =
    count_outcome e (count_level e ((history_stats es)\<lparr>total_events := total_events (history_stats es) + 1\<rparr>))"
  by (simp add: history_stats_def count_outcome_def count_level_def)

text \<open>
  The counters are cumulative: after any sequence of logged events, whatever the capacity,
  they are the counts over the whole history, evicted events included.
\<close>

lemma log_all_stats: "get_stats (log_all es (AuditLogger m)) = history_stats es"
proof (induction es rule: rev_induct)
  case Nil
  show ?case by (simp add: log_all_def AuditLogger_def history_stats_def get_stats_def)
next
  case (snoc e es)
  then show ?case by (simp add: log_all_snoc log_event_stats history_stats_snoc get_stats_def)
qed

text \<open>With a capacity of at least one, the buffer holds the last \<open>m\<close> events of the history.\<close>

lemma log_all_events:
  assumes "1 \<le> m"
  shows "events (log_all es (AuditLogger m)) = drop (length es - nat m) es"
proof (induction es rule: rev_induct)
  case Nil
  show ?case by (simp add: log_all_def AuditLogger_def)
next
  case (snoc e es)
  have m: "max_events (log_all es (AuditLogger m)) = m"
    by (simp add: log_all_max_events AuditLogger_def)
  show ?case
    using assms snoc
    by (auto simp add: log_all_snoc log_event_events m py_slice_from_def max_def nat_add_distrib
        Suc_diff_le nat_le_iff)
qed

lemma log_all_bounded:
  assumes "1 \<le> m"
  shows "int (length (events (log_all es (AuditLogger m)))) \<le> m"
  using assms by (simp add: log_all_events)

text \<open>
  Scenario D: the 1001st event on a logger of capacity 1000 evicts the oldest event; the
  buffer keeps 1000 events and \<open>total_events\<close> is 1001.
\<close>

lemma scenario_D:
  assumes "length es = 1001"
  shows "events (log_all es (AuditLogger 1000)) = tl es
       \<and> length (events (log_all es (AuditLogger 1000))) = 1000
       \<and> total_events (get_stats (log_all es (AuditLogger 1000))) = 1001"
  using assms by (simp add: log_all_events log_all_stats history_stats_def drop_Suc)

text \<open>
  Claim C8. The buffer is meant never to exceed the configured capacity. With the capacity
  configured as 0 the slice \<open>events[-0:]\<close> is the whole list: nothing is ever evicted and
  the buffer holds every event logged, more than its capacity from the first event on.
\<close>

theorem audit_capacity_zero_keeps_everything:
  "events (log_all es (AuditLogger 0)) = es
   \<and> length (events (log_event e (AuditLogger 0))) = 1
   \<and> max_events (log_event e (AuditLogger 0)) = 0"
proof -
  have "events (log_all es (AuditLogger 0)) = es"
  proof (induction es rule: rev_induct)
    case Nil
    show ?case by (simp add: log_all_def AuditLogger_def)
  next
    case (snoc x xs)
    have m: "max_events (log_all xs (AuditLogger 0)) = 0"
      by (simp add: log_all_max_events AuditLogger_def)
    show ?case using snoc
      by (simp add: log_all_snoc log_event_events m py_slice_from_def)
  qed
  moreover have "length (events (log_event e (AuditLogger 0))) = 1"
    by (simp add: log_event_events AuditLogger_def py_slice_from_def)
  moreover have "max_events (log_event e (AuditLogger 0)) = 0"
    by (simp add: log_event_max_events AuditLogger_def)
  ultimately show ?thesis by simp
qed

lemma enter_layer:
  "fst (enter L a target raw s w) = s\<lparr>action_history := action_history (fst (enter L a target raw s w))\<rparr>"
  by (simp add: enter_def add_to_history_def now_def Let_def)

lemma enter_fields:
  assumes "enter L a target raw s w = (s1, w1)"
  shows "patterns s1 = patterns s" "rules s1 = rules s" "confirmed_actions s1 = confirmed_actions s"
    "audit_logger s1 = audit_logger s" "security_level s1 = security_level s"
    "auto_confirm_hashes s1 = auto_confirm_hashes s"
    "confirmation_callbacks s1 = confirmation_callbacks s"
    "delivered w1 = delivered w"
  using assms by (auto simp add: enter_def add_to_history_def now_def Let_def)

lemma score_level_dangerous:
  "score_level x \<in> set [''high'', ''critical''] \<longleftrightarrow> 60 \<le> x"
  by (simp add: score_level_def)

lemma score_level_5: "score_level 5 = ''low''"
  by (simp add: score_level_def)

lemma rule_risk_of_level: "level (rule_risk_of a ctx triggered) = score_level (score (rule_risk_of a ctx triggered))"
  by (cases "a \<in> set [NAVIGATE, NAVIGATE_EXTERNAL]") (simp_all only: rule_risk_of_def Let_def risk_assessment.simps if_True if_False score_level_5)

lemma evaluate_rules_result:
  assumes "evaluate_rules L rs a target ctx = Inr (triggered, rule_risk)"
  shows "rule_risk = rule_risk_of a ctx triggered"
  using assms by (simp add: evaluate_rules_def split: sum.splits)

lemma evaluate_rules_level:
  assumes "evaluate_rules L rs a target ctx = Inr (triggered, rule_risk)"
  shows "level rule_risk = score_level (score rule_risk)"
  using evaluate_rules_result[OF assms] rule_risk_of_level by simp

lemma assess_risk_result:
  assumes "assess_risk a target ctx = Inr ra"
  obtains total_risk where
    "score ra = normalize_risk a total_risk"
    "level ra = score_level (score ra)"
proof -
  obtain cm tr where cmv: "context_modifiers (is_navigation a) ctx context_weights (1, []) = (cm, tr)"
    by (cases "context_modifiers (is_navigation a) ctx context_weights (1, [])")
  show thesis
  proof (cases "num_of (get_or ctx ''confidence'' (PNum 0.5))")
    case None
    with assms cmv show thesis by (simp add: assess_risk_def)
  next
    case (Some c)
    with assms cmv have "ra = \<lparr>score = normalize_risk a (base_risk a * cm * confidence_modifier c),
        level = score_level (normalize_risk a (base_risk a * cm * confidence_modifier c)),
        triggered_rules = tr,
        recommendations = risk_recommendations a
          (score_level (normalize_risk a (base_risk a * cm * confidence_modifier c))) ctx,
        confidence = get_or ctx ''confidence'' (PNum 0.5)\<rparr>"
      by (simp add: assess_risk_def Let_def)
    then show thesis using that by simp
  qed
qed

lemma assess_risk_level:
  assumes "assess_risk a target ctx = Inr ra"
  shows "level ra = score_level (score ra)"
  using assms by (rule assess_risk_result)

lemma evaluate_rules_navigation:
  assumes "evaluate_rules L rs a target ctx = Inr (triggered, rule_risk)"
    and "a = NAVIGATE \<or> a = NAVIGATE_EXTERNAL"
  shows "score rule_risk = 5"
  using evaluate_rules_result[OF assms(1)] assms(2)
  by (auto simp add: rule_risk_of_def Let_def)

lemma is_navigation_kinds: "is_navigation NAVIGATE" "is_navigation NAVIGATE_EXTERNAL"
  by (simp_all add: is_navigation_def)

lemma assess_risk_navigation:
  assumes "assess_risk a target ctx = Inr ra"
    and "a = NAVIGATE \<or> a = NAVIGATE_EXTERNAL"
  shows "score ra \<le> 25"
proof -
  from assms(2) have "is_navigation a" using is_navigation_kinds by auto
  with assms(1) show ?thesis by (elim assess_risk_result) (simp add: normalize_risk_def)
qed

lemma confirm_path_assessment: "snd (fst (confirm_path L a target fa ctx triggered h s w)) = fa"
  by (simp add: confirm_path_def Let_def split: prod.splits)

lemma confirm_only_assessment: "snd (fst (confirm_only L a target fa ctx triggered s w)) = fa"
  by (simp add: confirm_only_def split: prod.splits)

lemma decide_and_log_assessment: "snd (fst (decide_and_log L allowed a target fa ctx s w)) = fa"
  by (simp add: decide_and_log_def split: prod.splits)

lemma decide_assessment: "snd (fst (decide L a target fa ctx triggered h s w)) = fa"
  by (simp add: decide_def confirm_path_assessment confirm_only_assessment
      decide_and_log_assessment split: security_level.splits)

text \<open>The two ways \<open>check_action\<close> returns a result.\<close>

lemma check_action_cases:
  assumes "check_action L a target raw s w = Inr (r, s', w')"
  obtains
    (memo) ctx where "analyze L (patterns s) a target (raw_context raw) = Inr ctx"
      "memoized L a target raw s w" "r = (True, previously_confirmed)"
      "s' = fst (enter L a target raw s w)"
  | (fresh) ctx triggered rule_risk ra where
      "analyze L (patterns s) a target (raw_context raw) = Inr ctx"
      "\<not> memoized L a target raw s w"
      "evaluate_rules L (rules s) a target ctx = Inr (triggered, rule_risk)"
      "assess_risk a target ctx = Inr ra"
      "(r, s', w') = decide L a target (fuse L rule_risk ra) ctx triggered
          (fst (generate_action_hash L a target ctx (snd (enter L a target raw s w))))
          (fst (enter L a target raw s w))
          (snd (generate_action_hash L a target ctx (snd (enter L a target raw s w))))"
proof -
  obtain s1 w1 where en: "enter L a target raw s w = (s1, w1)" by (cases "enter L a target raw s w")
  note f = enter_fields[OF en]
  show thesis
  proof (cases "analyze L (patterns s) a target (raw_context raw)")
    case (Inl e)
    with assms en f show thesis by (simp add: check_action_def)
  next
    case (Inr ctx)
    obtain h w2 where gh: "generate_action_hash L a target ctx w1 = (h, w2)"
      by (cases "generate_action_hash L a target ctx w1")
    show thesis
    proof (cases "h \<in> confirmed_actions s")
      case True
      with assms en f Inr gh have "r = (True, previously_confirmed)" "s' = s1"
        by (simp_all add: check_action_def)
      moreover from True en f Inr gh have "memoized L a target raw s w"
        by (simp add: memoized_def)
      ultimately show thesis using memo Inr en by simp
    next
      case False
      from False en f Inr gh have nm: "\<not> memoized L a target raw s w"
        by (simp add: memoized_def)
      from assms en f Inr gh False obtain triggered rule_risk ra where
        ev: "evaluate_rules L (rules s) a target ctx = Inr (triggered, rule_risk)"
        and ar: "assess_risk a target ctx = Inr ra"
        and d: "(r, s', w') = decide L a target (fuse L rule_risk ra) ctx triggered h s1 w2"
        by (auto simp add: check_action_def split: sum.splits)
      show thesis using fresh[OF Inr nm ev ar] d en gh by simp
    qed
  qed
qed

text \<open>
  Claim C3. For an action that is not memoized, the assessment \<open>check_action\<close> returns is
  the fusion of the rule engine's and the risk assessor's: its score is the larger of the
  two scores; its level is the level of the assessment with the strictly larger score and,
  on a tie, the rule engine's (both levels are then the same, each being the threshold
  level of its score); its triggered rules are the union of both lists of names; its
  recommendations are the risk assessor's. The order of \<open>list(set(...))\<close> is left to
  the library, which enumerates exactly the elements of the set.
\<close>

theorem check_action_fuses_assessments:
  assumes ok: "check_action L a target raw s w = Inr ((allowed, fa), s', w')"
    and fresh: "\<not> memoized L a target raw s w"
    and sets: "\<And>xs. set (list_of_set L xs) = set xs"
  shows "\<exists>ctx triggered rule_risk ra.
           analyze L (patterns s) a target (raw_context raw) = Inr ctx
         \<and> evaluate_rules L (rules s) a target ctx = Inr (triggered, rule_risk)
         \<and> assess_risk a target ctx = Inr ra
         \<and> score fa = max (score rule_risk) (score ra)
         \<and> level fa = (if score rule_risk > score ra then level rule_risk
                       else if score ra > score rule_risk then level ra
                       else level rule_risk)
         \<and> set (triggered_rules fa) = set (triggered_rules rule_risk) \<union> set (triggered_rules ra)
         \<and> recommendations fa = recommendations ra"
  using ok
proof (cases rule: check_action_cases)
  case (memo ctx)
  with fresh show ?thesis by simp
next
  case (fresh ctx triggered rule_risk ra)
  from fresh(5) have "fa = fuse L rule_risk ra"
    using decide_assessment
    by (metis fst_conv snd_conv)
  moreover have "score rule_risk = score ra \<Longrightarrow> level rule_risk = level ra"
    using evaluate_rules_level[OF fresh(3)] assess_risk_level[OF fresh(4)] by simp
  ultimately show ?thesis using fresh(1,3,4) sets
    by (auto simp add: fuse_def)
qed

text \<open>
  Claim C7. For an action of kind NAVIGATE or NAVIGATE_EXTERNAL, the score of the
  assessment that \<open>check_action\<close> returns is at most 25, for every context, layer and
  world: the rule engine's score is fixed at 5 and the risk assessor clamps its own at 25.
\<close>

theorem navigation_score_at_most_25:
  assumes nav: "a = NAVIGATE \<or> a = NAVIGATE_EXTERNAL"
    and ok: "check_action L a target raw s w = Inr ((allowed, fa), s', w')"
  shows "score fa \<le> 25"
  using ok
proof (cases rule: check_action_cases)
  case (memo ctx)
  then show ?thesis by (simp add: previously_confirmed_def)
next
  case (fresh ctx triggered rule_risk ra)
  from fresh(5) have "fa = fuse L rule_risk ra"
    using decide_assessment
    by (metis fst_conv snd_conv)
  then show ?thesis
    using evaluate_rules_navigation[OF fresh(3) nav] assess_risk_navigation[OF fresh(4) nav]
    by (simp add: fuse_def)
qed

lemma now_delivered: "delivered (snd (now w)) = delivered w"
  by (simp add: now_def)

lemma clean_hash_cache_delivered: "delivered (clean_hash_cache w) = delivered w"
  by (simp add: clean_hash_cache_def now_def)

lemma store_hash_delivered: "delivered (snd (store_hash L a target ctx w)) = delivered w"
  by (simp add: store_hash_def Let_def now_def clean_hash_cache_delivered)

lemma generate_action_hash_delivered:
  "delivered (snd (generate_action_hash L a target ctx w)) = delivered w"
  by (simp add: generate_action_hash_def store_hash_delivered now_def split: option.splits prod.splits)

lemma request_confirmation_delivered:
  "delivered (snd (request_confirmation L hs a target fa ctx triggered w)) = delivered w"
proof -
  obtain h w1 where g: "generate_action_hash L a target ctx w = (h, w1)"
    by (cases "generate_action_hash L a target ctx w")
  from generate_action_hash_delivered[of L a target ctx w] g have "delivered w1 = delivered w" by simp
  with g show ?thesis by (simp add: request_confirmation_def split: prod.splits)
qed

lemma log_action_result:
  "log_action L a target fa allowed ctx logger w =
    (log_event (action_event L (clock w (ticks w)) a target fa allowed ctx) logger,
     w\<lparr>ticks := Suc (ticks w)\<rparr>)"
  by (simp add: log_action_def now_def)

text \<open>The confirmation block: what it returns and what it leaves behind.\<close>

lemma confirm_path_result:
  assumes rc: "request_confirmation L (auto_confirm_hashes s) a target fa ctx triggered w = ((allowed, reason), w3)"
  shows "\<exists>s' w' t.
      confirm_path L a target fa ctx triggered h s w = ((allowed, fa), s', w')
    \<and> confirmed_actions s' =
        (if allowed \<and> reason = ''approved_all'' then insert h (confirmed_actions s)
         else confirmed_actions s)
    \<and> audit_logger s' = log_event (action_event L t a target fa allowed ctx) (audit_logger s)
    \<and> delivered w' = delivered w
         @ map (\<lambda>(i, callback). (i, callback_event a target fa ctx allowed reason,
                                   callback (callback_event a target fa ctx allowed reason)))
             (enumerate 0 (confirmation_callbacks s))"
proof -
  from request_confirmation_delivered[of L "auto_confirm_hashes s" a target fa ctx triggered w] rc
  have d: "delivered w3 = delivered w" by simp
  show ?thesis
    using rc d
    by (auto simp add: confirm_path_def Let_def log_action_result notify_callbacks_def)
qed

lemma check_action_fresh:
  assumes en: "enter L a target raw s w = (s1, w1)"
    and an: "analyze L (patterns s) a target (raw_context raw) = Inr ctx"
    and gh: "generate_action_hash L a target ctx w1 = (h, w2)"
    and fresh: "h \<notin> confirmed_actions s"
    and ev: "evaluate_rules L (rules s) a target ctx = Inr (triggered, rule_risk)"
    and ar: "assess_risk a target ctx = Inr ra"
  shows "check_action L a target raw s w
           = Inr (decide L a target (fuse L rule_risk ra) ctx triggered h s1 w2)"
  using assms enter_fields[OF en] by (simp add: check_action_def)

lemma check_action_confirmation:
  assumes en: "enter L a target raw s w = (s1, w1)"
    and an: "analyze L (patterns s) a target (raw_context raw) = Inr ctx"
    and gh: "generate_action_hash L a target ctx w1 = (h, w2)"
    and fresh: "h \<notin> confirmed_actions s"
    and ev: "evaluate_rules L (rules s) a target ctx = Inr (triggered, rule_risk)"
    and ar: "assess_risk a target ctx = Inr ra"
    and over: "score (fuse L rule_risk ra) > 20"
    and rc: "request_confirmation L (auto_confirm_hashes s) a target (fuse L rule_risk ra) ctx
               triggered w2 = ((allowed, reason), w3)"
  shows "\<exists>s' w' t.
      check_action L a target raw s w = Inr ((allowed, fuse L rule_risk ra), s', w')
    \<and> confirmed_actions s' =
        (if allowed \<and> reason = ''approved_all'' then insert h (confirmed_actions s)
         else confirmed_actions s)
    \<and> audit_logger s' =
        log_event (action_event L t a target (fuse L rule_risk ra) allowed ctx) (audit_logger s)
    \<and> delivered w' = delivered w
         @ map (\<lambda>(i, callback).
                  (i, callback_event a target (fuse L rule_risk ra) ctx allowed reason,
                   callback (callback_event a target (fuse L rule_risk ra) ctx allowed reason)))
             (enumerate 0 (confirmation_callbacks s))"
proof -
  note f = enter_fields[OF en]
  have d2: "delivered w2 = delivered w"
    using generate_action_hash_delivered[of L a target ctx w1] gh f by simp
  have rc1: "request_confirmation L (auto_confirm_hashes s1) a target (fuse L rule_risk ra) ctx
               triggered w2 = ((allowed, reason), w3)"
    using rc f by simp
  obtain s' w' t where
    cp: "confirm_path L a target (fuse L rule_risk ra) ctx triggered h s1 w2
           = ((allowed, fuse L rule_risk ra), s', w')"
    and ca: "confirmed_actions s' =
        (if allowed \<and> reason = ''approved_all'' then insert h (confirmed_actions s1)
         else confirmed_actions s1)"
    and al: "audit_logger s' =
        log_event (action_event L t a target (fuse L rule_risk ra) allowed ctx) (audit_logger s1)"
    and dl: "delivered w' = delivered w2
         @ map (\<lambda>(i, callback).
                  (i, callback_event a target (fuse L rule_risk ra) ctx allowed reason,
                   callback (callback_event a target (fuse L rule_risk ra) ctx allowed reason)))
             (enumerate 0 (confirmation_callbacks s1))"
    using confirm_path_result[OF rc1, of h] by blast
  have "check_action L a target raw s w = Inr ((allowed, fuse L rule_risk ra), s', w')"
    using check_action_fresh[OF en an gh fresh ev ar] cp over by (simp add: decide_def)
  moreover have "confirmed_actions s' =
        (if allowed \<and> reason = ''approved_all'' then insert h (confirmed_actions s)
         else confirmed_actions s)"
    using ca f by simp
  moreover have "audit_logger s' =
        log_event (action_event L t a target (fuse L rule_risk ra) allowed ctx) (audit_logger s)"
    using al f by simp
  moreover have "delivered w' = delivered w
         @ map (\<lambda>(i, callback).
                  (i, callback_event a target (fuse L rule_risk ra) ctx allowed reason,
                   callback (callback_event a target (fuse L rule_risk ra) ctx allowed reason)))
             (enumerate 0 (confirmation_callbacks s))"
    using dl d2 f by simp
  ultimately show ?thesis by blast
qed

lemma fused_dangerous_over_threshold:
  assumes ev: "evaluate_rules L rs a target ctx = Inr (triggered, rule_risk)"
    and ar: "assess_risk a target ctx = Inr ra"
    and danger: "level (fuse L rule_risk ra) \<in> set [''high'', ''critical'']"
  shows "score (fuse L rule_risk ra) \<ge> 60"
proof (cases "score rule_risk > score ra")
  case True
  with danger have "score_level (score rule_risk) \<in> set [''high'', ''critical'']"
    using evaluate_rules_level[OF ev] by (simp add: fuse_def del: set_simps)
  then have "60 \<le> score rule_risk" by (simp only: score_level_dangerous)
  with True show ?thesis by (simp add: fuse_def)
next
  case False
  with danger have "score_level (score ra) \<in> set [''high'', ''critical'']"
    using assess_risk_level[OF ar] by (simp add: fuse_def del: set_simps)
  then have "60 \<le> score ra" by (simp only: score_level_dangerous)
  with False show ?thesis by (simp add: fuse_def)
qed

text \<open>
  Claim C1, as amended. Under the HIGH level, an action that is not memoized and whose
  fused level is high or critical has a fused score of at least 60, above the threshold of
  20 that \<open>check_action\<close> tests first: the action goes to the confirmation prompt, the
  answer of the prompt is the allowed flag that is returned and logged, and the branch
  that blocks without asking is not taken.
\<close>

theorem high_level_danger_is_prompted:
  assumes en: "enter L a target raw s w = (s1, w1)"
    and an: "analyze L (patterns s) a target (raw_context raw) = Inr ctx"
    and gh: "generate_action_hash L a target ctx w1 = (h, w2)"
    and fresh: "h \<notin> confirmed_actions s"
    and ev: "evaluate_rules L (rules s) a target ctx = Inr (triggered, rule_risk)"
    and ar: "assess_risk a target ctx = Inr ra"
    and high: "security_level s = HIGH"
    and danger: "level (fuse L rule_risk ra) \<in> set [''high'', ''critical'']"
    and rc: "request_confirmation L (auto_confirm_hashes s) a target (fuse L rule_risk ra) ctx
               triggered w2 = ((allowed, reason), w3)"
  shows "score (fuse L rule_risk ra) \<ge> 60
    \<and> (\<exists>s' w' t.
          check_action L a target raw s w = Inr ((allowed, fuse L rule_risk ra), s', w')
        \<and> audit_logger s' =
            log_event (action_event L t a target (fuse L rule_risk ra) allowed ctx)
              (audit_logger s))"
proof -
  have s60: "score (fuse L rule_risk ra) \<ge> 60"
    by (rule fused_dangerous_over_threshold[OF ev ar danger])
  then have over: "score (fuse L rule_risk ra) > 20" by simp
  from check_action_confirmation[OF en an gh fresh ev ar over rc] s60
  show ?thesis by blast
qed

text \<open>
  Claim C1 as stated fails: under HIGH, the typed password of scenario A is assessed
  critical, the user is asked, answers \<open>y\<close>, and the action is allowed.
\<close>

theorem high_level_critical_action_allowed:
  "(case check_action demo_lib TYPE_PASSWORD ''mypassword123''
           (Some [(''is_login_page'', PBool True)]) (SecurityLayer HIGH) (demo_world [Line ''y''])
    of Inl e \<Rightarrow> False
     | Inr ((allowed, fa), s', w') \<Rightarrow>
         allowed \<and> level fa = ''critical'' \<and> security_level s' = HIGH \<and> stdin w' = [])"
  by code_simp

lemma dict_get_set: "dict_get (dict_set d k v) k' = (if k = k' then Some v else dict_get d k')"
  by (induction d) auto

lemma dict_get_update_other:
  "k \<notin> fst ` set u \<Longrightarrow> dict_get (dict_update d u) k = dict_get d k"
  by (induction u arbitrary: d) (auto simp add: dict_get_set)

lemma keyword_hits_get:
  assumes "dict_get (keyword_hits text_lower cs res) k = Some v"
  shows "dict_get res k = Some v \<or> (\<exists>c \<in> fst ` set cs. k = ''contains_'' @ c)"
  using assms
proof (induction cs arbitrary: res)
  case Nil
  then show ?case by simp
next
  case (Cons p cs)
  obtain c ws where p: "p = (c, ws)" by (cases p)
  show ?case
  proof (cases "any_in ws text_lower")
    case True
    with Cons.prems p have "dict_get (keyword_hits text_lower cs (dict_set res (''contains_'' @ c) (PBool True))) k = Some v"
      by simp
    from Cons.IH[OF this] p show ?thesis
      by (auto simp add: dict_get_set split: if_splits)
  next
    case False
    with Cons.prems p have "dict_get (keyword_hits text_lower cs res) k = Some v" by simp
    from Cons.IH[OF this] show ?thesis by auto
  qed
qed

lemma keyword_categories:
  "map fst keyword_patterns =
    [''payment'', ''login'', ''registration'', ''social'', ''delete'', ''download'', ''legal'',
     ''contact'', ''search'', ''navigation'', ''settings'']"
  by (simp add: keyword_patterns_def)

lemma analyze_keywords_get:
  assumes "dict_get (analyze_keywords L target) k = Some v"
  shows "k \<in> set (map (\<lambda>c. ''contains_'' @ c) (map fst keyword_patterns))"
proof -
  from assms have "dict_get (keyword_hits (str_lower L target) keyword_patterns []) k = Some v"
    by (simp add: analyze_keywords_def split: if_splits)
  from keyword_hits_get[OF this] show ?thesis by auto
qed

lemma analyze_keywords_none:
  assumes "k \<notin> set (map (\<lambda>c. ''contains_'' @ c) (map fst keyword_patterns))"
  shows "dict_get (analyze_keywords L target) k = None"
  using analyze_keywords_get[of L target k] assms by (cases "dict_get (analyze_keywords L target) k") auto

lemma dict_get_update_none:
  "dict_get u k = None \<Longrightarrow> dict_get (dict_update d u) k = dict_get d k"
proof (induction u arbitrary: d)
  case Nil
  then show ?case by simp
next
  case (Cons p u)
  obtain k' v' where p: "p = (k', v')" by (cases p)
  with Cons.prems have "k' \<noteq> k" "dict_get u k = None" by (auto split: if_splits)
  with Cons.IH[of "dict_set d k' v'"] p show ?case by (simp add: dict_get_set)
qed

lemma analyze_patterns_get:
  assumes "k \<noteq> ''pattern_analysis''" "k \<noteq> ''detected_patterns''"
  shows "dict_get (analyze_patterns L pats target raw) k = dict_get raw k"
  using assms by (simp add: analyze_patterns_def Let_def dict_get_set)

lemma dict_get_append:
  "dict_get (xs @ ys) k = (case dict_get xs k of Some v \<Rightarrow> Some v | None \<Rightarrow> dict_get ys k)"
  by (induction xs) auto

lemma dict_get_optional:
  "k \<noteq> key \<Longrightarrow> dict_get (if c then [(key, v)] else []) k = None"
  by simp

lemma analyze_action_context_get:
  assumes "k \<notin> set [''is_password_in_login_context'', ''is_payment_in_checkout_context'',
      ''is_delete_in_settings_context'', ''is_social_action_in_context'']"
  shows "dict_get (analyze_action_context a target ctx) k = None"
proof -
  from assms have "k \<noteq> ''is_password_in_login_context''" "k \<noteq> ''is_payment_in_checkout_context''"
    "k \<noteq> ''is_delete_in_settings_context''" "k \<noteq> ''is_social_action_in_context''"
    by simp_all
  then show ?thesis
    by (simp add: analyze_action_context_def dict_get_append dict_get_optional split del: if_split)
qed

lemma analyze_finish_get:
  assumes "k \<notin> set [''is_password_in_login_context'', ''is_payment_in_checkout_context'',
      ''is_delete_in_settings_context'', ''is_social_action_in_context'',
      ''confidence'', ''recommendations'']"
  shows "dict_get (analyze_finish a target ctx) k = dict_get ctx k"
proof -
  from assms have "dict_get (analyze_action_context a target ctx) k = None"
    by (intro analyze_action_context_get) simp
  with assms show ?thesis
    by (auto simp add: analyze_finish_def Let_def dict_get_set dict_get_update_none)
qed

lemma analyze_finish_confidence:
  "\<exists>c. dict_get (analyze_finish a target ctx) ''confidence'' = Some (PNum c)"
  by (simp add: analyze_finish_def Let_def dict_get_set)

text \<open>
  Without a current URL and a history, and for a navigation without a target, analyze
  cannot raise: it is the pattern step, the keyword step and the final steps.
\<close>

lemma analyze_plain:
  assumes cu: "dict_get raw ''current_url'' = None"
    and rh: "dict_get raw ''recent_history'' = None"
    and nav: "is_navigation_kind a \<Longrightarrow> target = [] \<and> dict_get raw ''target_url'' = None"
  shows "analyze L pats a target raw =
    Inr (analyze_finish a target
           (dict_update (analyze_patterns L pats target raw) (analyze_keywords L target)))"
proof -
  let ?c1 = "analyze_patterns L pats target raw"
  have u: "get_or ?c1 ''current_url'' (PStr []) = PStr []"
    using cu by (simp add: get_or_def analyze_patterns_get)
  have p: "analyze_page L (PStr []) ?c1 = Inr ?c1" by (simp add: analyze_page_def)
  have n: "analyze_navigation L a target (PStr []) ?c1 = Inr ?c1"
  proof (cases "is_navigation_kind a")
    case True
    with nav have "target = []" "dict_get ?c1 ''target_url'' = None"
      by (simp_all add: analyze_patterns_get)
    with True show ?thesis by (simp add: analyze_navigation_def get_or_def)
  next
    case False
    then show ?thesis by (simp add: analyze_navigation_def)
  qed
  have "dict_get (analyze_keywords L target) ''recent_history'' = None"
    by (rule analyze_keywords_none) (simp add: keyword_categories)
  then have h: "dict_get (dict_update ?c1 (analyze_keywords L target)) ''recent_history'' = None"
    using rh by (simp add: dict_get_update_none analyze_patterns_get)
  show ?thesis
    by (simp add: analyze_def Let_def u p n h)
qed

lemma analyze_plain_get:
  assumes cu: "dict_get raw ''current_url'' = None"
    and rh: "dict_get raw ''recent_history'' = None"
    and nav: "is_navigation_kind a \<Longrightarrow> target = [] \<and> dict_get raw ''target_url'' = None"
    and k: "k \<notin> set [''is_password_in_login_context'', ''is_payment_in_checkout_context'',
      ''is_delete_in_settings_context'', ''is_social_action_in_context'',
      ''confidence'', ''recommendations'', ''pattern_analysis'', ''detected_patterns'']"
    and kw: "k \<notin> set (map (\<lambda>c. ''contains_'' @ c) (map fst keyword_patterns))"
    and an: "analyze L pats a target raw = Inr ctx"
  shows "dict_get ctx k = dict_get raw k"
proof -
  from an analyze_plain[OF cu rh nav] have
    c: "ctx = analyze_finish a target
           (dict_update (analyze_patterns L pats target raw) (analyze_keywords L target))"
    by simp
  from k have "dict_get ctx k
      = dict_get (dict_update (analyze_patterns L pats target raw) (analyze_keywords L target)) k"
    unfolding c by (intro analyze_finish_get) simp
  also have "\<dots> = dict_get (analyze_patterns L pats target raw) k"
    using analyze_keywords_none[OF kw] by (simp add: dict_get_update_none)
  also have "\<dots> = dict_get raw k" using k by (intro analyze_patterns_get) simp_all
  finally show ?thesis .
qed

lemma analyze_confidence:
  assumes "analyze L pats a target raw = Inr ctx"
  shows "\<exists>c. dict_get ctx ''confidence'' = Some (PNum c)"
  using assms analyze_finish_confidence
  by (auto simp add: analyze_def Let_def split: sum.splits option.splits)

lemma rule_matches_navigation:
  assumes "a = NAVIGATE \<or> a = NAVIGATE_EXTERNAL"
  shows "rule_matches L a target ctx rule = Inr False"
  using assms by (auto simp add: rule_matches_def)

lemma triggered_by_navigation:
  assumes "a = NAVIGATE \<or> a = NAVIGATE_EXTERNAL"
  shows "triggered_by L a target ctx rs triggered = Inr triggered"
  by (induction rs) (simp_all add: rule_matches_navigation[OF assms])

lemma evaluate_rules_navigation_ok:
  assumes "a = NAVIGATE \<or> a = NAVIGATE_EXTERNAL"
  shows "evaluate_rules L rs a target ctx = Inr ([], rule_risk_of a ctx [])"
  by (simp add: evaluate_rules_def triggered_by_navigation[OF assms])

lemma assess_risk_ok:
  assumes "dict_get ctx ''confidence'' = Some (PNum c)"
  shows "\<exists>ra. assess_risk a target ctx = Inr ra"
  using assms by (simp add: assess_risk_def get_or_def Let_def split: prod.splits)

lemma not_memoized_initially:
  assumes "confirmed_actions s = {}"
  shows "\<not> memoized L a target raw s w"
proof -
  obtain s1 w1 where en: "enter L a target raw s w = (s1, w1)" by (cases "enter L a target raw s w")
  from enter_fields(3)[OF en] assms en show ?thesis
    by (simp add: memoized_def split: sum.splits)
qed

text \<open>The default rules on a typed password.\<close>

lemma evaluate_rules_password:
  assumes "flag ctx ''is_login_page''"
  shows "evaluate_rules L default_rules TYPE_PASSWORD target ctx =
    Inr ([rule_context_login_flow_password],
         rule_risk_of TYPE_PASSWORD ctx [rule_context_login_flow_password])"
  using assms
  by (simp add: evaluate_rules_def default_rules_def rule_matches_def
      rule_payment_click_def rule_card_data_input_def rule_password_input_def
      rule_email_input_def rule_external_navigation_def rule_non_https_navigation_def
      rule_context_login_flow_password_def rule_context_payment_flow_def)

lemma rule_risk_password:
  "score (rule_risk_of TYPE_PASSWORD ctx [rule_context_login_flow_password]) = 90"
  "level (rule_risk_of TYPE_PASSWORD ctx [rule_context_login_flow_password]) = ''critical''"
  "triggered_rules (rule_risk_of TYPE_PASSWORD ctx [rule_context_login_flow_password])
     = [''context_login_flow_password'']"
  by (simp_all add: rule_risk_of_def Let_def rule_context_login_flow_password_def
      risk_level_multiplier_def score_level_def)

text \<open>
  The context modifier is at least the product of the weights below one: every weight is
  applied at most once.
\<close>

lemma context_modifiers_lower:
  assumes "0 \<le> m" and "\<forall>(k, wt) \<in> set ws. 0 \<le> wt"
  shows "m * prod_list (map (\<lambda>(k, wt). min 1 wt) ws) \<le> fst (context_modifiers nav ctx ws (m, tr))"
  using assms
proof (induction ws arbitrary: m tr)
  case Nil
  then show ?case by simp
next
  case (Cons p ws)
  obtain k wt where p: "p = (k, wt)" by (cases p)
  from Cons.prems p have wt: "0 \<le> wt" and rest: "\<forall>(k, wt) \<in> set ws. 0 \<le> wt" by auto
  let ?P = "prod_list (map (\<lambda>(k, wt). min 1 wt) ws)"
  have P0: "0 \<le> ?P"
    using rest by (induction ws) (auto simp add: min_def)
  have step: "m * (min 1 wt * ?P) \<le> m' * ?P" if "m' = m \<or> m' = m * wt" for m'
  proof -
    have a: "m * min 1 wt \<le> m * 1"
      using Cons.prems(1) by (intro mult_left_mono) simp_all
    have b: "m * min 1 wt \<le> m * wt"
      using Cons.prems(1) by (intro mult_left_mono) simp_all
    have "m * min 1 wt \<le> m'"
      using that a b by auto
    then have "m * min 1 wt * ?P \<le> m' * ?P" using P0 by (rule mult_right_mono)
    then show ?thesis by (simp add: mult.assoc)
  qed
  have m'0: "0 \<le> m * wt" using Cons.prems(1) wt by simp
  consider (same) tr' where "context_modifiers nav ctx (p # ws) (m, tr) = context_modifiers nav ctx ws (m, tr')"
    | (mult) tr' where "context_modifiers nav ctx (p # ws) (m, tr) = context_modifiers nav ctx ws (m * wt, tr')"
    using p by (cases "flag ctx k"; cases nav; cases "k \<in> set [''is_suspicious_domain'', ''is_http'', ''is_https'']") auto
  then show ?case
  proof cases
    case same
    have "m * (min 1 wt * ?P) \<le> m * ?P" using step[of m] by simp
    also have "\<dots> \<le> fst (context_modifiers nav ctx ws (m, tr'))"
      using Cons.IH[OF Cons.prems(1) rest] .
    finally show ?thesis using same p by simp
  next
    case mult
    have "m * (min 1 wt * ?P) \<le> (m * wt) * ?P" using step[of "m * wt"] by simp
    also have "\<dots> \<le> fst (context_modifiers nav ctx ws (m * wt, tr'))"
      using Cons.IH[OF m'0 rest] .
    finally show ?thesis using mult p by simp
  qed
qed

lemma context_weights_product:
  "prod_list (map (\<lambda>(k, wt). min 1 wt) context_weights) = 0.6561"
  by (simp add: context_weights_def)

lemma context_weights_nonneg: "\<forall>(k, wt) \<in> set context_weights. 0 \<le> wt"
  by (simp add: context_weights_def)

lemma context_modifier_lower:
  "0.6561 \<le> fst (context_modifiers nav ctx context_weights (1, []))"
  using context_modifiers_lower[OF _ context_weights_nonneg, of 1 nav ctx "[]"]
  by (simp add: context_weights_product)

lemma confidence_modifier_lower: "0.9 \<le> confidence_modifier c"
  by (simp add: confidence_modifier_def context_weight_def context_weights_def)

lemma base_risk_password: "base_risk TYPE_PASSWORD = 80"
  by (simp add: base_risk_def action_weights_def)

lemma not_navigation_password: "\<not> is_navigation TYPE_PASSWORD"
  by (simp add: is_navigation_def)

text \<open>A typed password scores 100 with the risk assessor, whatever the context.\<close>

lemma assess_risk_password:
  assumes "dict_get ctx ''confidence'' = Some (PNum c)"
  shows "\<exists>ra. assess_risk TYPE_PASSWORD target ctx = Inr ra \<and> score ra = 100
            \<and> level ra = ''critical''"
proof -
  obtain cm tr where cmv:
    "context_modifiers (is_navigation TYPE_PASSWORD) ctx context_weights (1, []) = (cm, tr)"
    by (cases "context_modifiers (is_navigation TYPE_PASSWORD) ctx context_weights (1, [])")
  from context_modifier_lower[of "is_navigation TYPE_PASSWORD" ctx] cmv have cm: "0.6561 \<le> cm"
    by simp
  have cf: "0.9 \<le> confidence_modifier c" by (rule confidence_modifier_lower)
  have "0.6561 * 0.9 \<le> cm * confidence_modifier c"
    using cm cf by (intro mult_mono) simp_all
  then have "100 \<le> 80 * cm * confidence_modifier c * 20" by simp
  then have n: "normalize_risk TYPE_PASSWORD (base_risk TYPE_PASSWORD * cm * confidence_modifier c) = 100"
    by (simp add: normalize_risk_def not_navigation_password base_risk_password)
  show ?thesis
    using assms cmv n
    by (simp add: assess_risk_def get_or_def Let_def score_level_def)
qed

lemma is_navigation_kind_password: "\<not> is_navigation_kind TYPE_PASSWORD"
  by (simp add: is_navigation_kind_def)

lemma password_analysis:
  obtains ctx where
    "analyze L pats TYPE_PASSWORD target [(''is_login_page'', PBool True)] = Inr ctx"
    "flag ctx ''is_login_page''" "\<not> flag ctx ''contains_passwords''"
    "\<exists>c. dict_get ctx ''confidence'' = Some (PNum c)"
    "dict_get ctx ''current_url'' = None"
proof -
  let ?raw = "[(''is_login_page'', PBool True)]"
  have cu: "dict_get ?raw ''current_url'' = None" and rh: "dict_get ?raw ''recent_history'' = None"
    by simp_all
  have nav: "is_navigation_kind TYPE_PASSWORD \<Longrightarrow> target = [] \<and> dict_get ?raw ''target_url'' = None"
    by (simp add: is_navigation_kind_password)
  define ctx where "ctx = analyze_finish TYPE_PASSWORD target
           (dict_update (analyze_patterns L pats target ?raw) (analyze_keywords L target))"
  have an: "analyze L pats TYPE_PASSWORD target ?raw = Inr ctx"
    unfolding ctx_def by (rule analyze_plain[OF cu rh nav])
  have g: "dict_get ctx k = dict_get ?raw k"
    if "k \<notin> set [''is_password_in_login_context'', ''is_payment_in_checkout_context'',
      ''is_delete_in_settings_context'', ''is_social_action_in_context'',
      ''confidence'', ''recommendations'', ''pattern_analysis'', ''detected_patterns'']"
      "k \<notin> set (map (\<lambda>c. ''contains_'' @ c) (map fst keyword_patterns))" for k
    by (rule analyze_plain_get[OF cu rh nav that an])
  have "dict_get ctx ''is_login_page'' = Some (PBool True)"
    by (subst g) (simp_all add: keyword_categories)
  then have f1: "flag ctx ''is_login_page''" by (simp add: flag_def get_or_def)
  have "dict_get ctx ''contains_passwords'' = None"
    by (subst g) (simp_all add: keyword_categories)
  then have f2: "\<not> flag ctx ''contains_passwords''" by (simp add: flag_def get_or_def)
  have f3: "dict_get ctx ''current_url'' = None"
    by (subst g) (simp_all add: keyword_categories)
  show thesis
    using that[OF an f1 f2 analyze_confidence[OF an] f3] .
qed

text \<open>Scenario A on any layer that has the default rules and has confirmed nothing yet.\<close>

lemma password_check:
  assumes "confirmed_actions s = {}" and "rules s = default_rules"
  obtains ctx ra where
    "analyze L (patterns s) TYPE_PASSWORD target [(''is_login_page'', PBool True)] = Inr ctx"
    "\<not> flag ctx ''contains_passwords''"
    "evaluate_rules L default_rules TYPE_PASSWORD target ctx =
       Inr ([rule_context_login_flow_password],
            rule_risk_of TYPE_PASSWORD ctx [rule_context_login_flow_password])"
    "assess_risk TYPE_PASSWORD target ctx = Inr ra" "score ra = 100" "level ra = ''critical''"
    "check_action L TYPE_PASSWORD target (Some [(''is_login_page'', PBool True)]) s w =
       Inr (confirm_path L TYPE_PASSWORD target
              (fuse L (rule_risk_of TYPE_PASSWORD ctx [rule_context_login_flow_password]) ra) ctx
              [rule_context_login_flow_password]
              (fst (generate_action_hash L TYPE_PASSWORD target ctx
                      (snd (enter L TYPE_PASSWORD target (Some [(''is_login_page'', PBool True)]) s w))))
              (fst (enter L TYPE_PASSWORD target (Some [(''is_login_page'', PBool True)]) s w))
              (snd (generate_action_hash L TYPE_PASSWORD target ctx
                      (snd (enter L TYPE_PASSWORD target (Some [(''is_login_page'', PBool True)]) s w)))))"
proof -
  let ?raw = "Some [(''is_login_page'', PBool True)]"
  obtain ctx where an: "analyze L (patterns s) TYPE_PASSWORD target [(''is_login_page'', PBool True)] = Inr ctx"
    and f1: "flag ctx ''is_login_page''" and f2: "\<not> flag ctx ''contains_passwords''"
    and cf: "\<exists>c. dict_get ctx ''confidence'' = Some (PNum c)"
    by (rule password_analysis)
  from cf obtain c where c: "dict_get ctx ''confidence'' = Some (PNum c)" by blast
  from assess_risk_password[OF c] obtain ra where
    ar: "assess_risk TYPE_PASSWORD target ctx = Inr ra" and sc: "score ra = 100"
    and lv: "level ra = ''critical''" by blast
  have ev: "evaluate_rules L (rules s) TYPE_PASSWORD target ctx =
       Inr ([rule_context_login_flow_password],
            rule_risk_of TYPE_PASSWORD ctx [rule_context_login_flow_password])"
    using evaluate_rules_password[OF f1] assms(2) by simp
  obtain s1 w1 where en: "enter L TYPE_PASSWORD target ?raw s w = (s1, w1)"
    by (cases "enter L TYPE_PASSWORD target ?raw s w")
  obtain h w2 where gh: "generate_action_hash L TYPE_PASSWORD target ctx w1 = (h, w2)"
    by (cases "generate_action_hash L TYPE_PASSWORD target ctx w1")
  have an': "analyze L (patterns s) TYPE_PASSWORD target (raw_context ?raw) = Inr ctx"
    using an by (simp add: raw_context_def)
  have fr: "h \<notin> confirmed_actions s" using assms(1) by simp
  have over: "score (fuse L (rule_risk_of TYPE_PASSWORD ctx [rule_context_login_flow_password]) ra) > 20"
    using sc by (simp add: fuse_def)
  have "check_action L TYPE_PASSWORD target ?raw s w =
      Inr (confirm_path L TYPE_PASSWORD target
              (fuse L (rule_risk_of TYPE_PASSWORD ctx [rule_context_login_flow_password]) ra) ctx
              [rule_context_login_flow_password] h s1 w2)"
    using check_action_fresh[OF en an' gh fr ev ar] over by (simp add: decide_def)
  then show thesis
    using that[OF an f2 _ ar sc lv] evaluate_rules_password[OF f1] en gh by simp
qed

lemma fuse_password:
  assumes "score ra = 100" "level ra = ''critical''"
  shows "score (fuse L (rule_risk_of TYPE_PASSWORD ctx [rule_context_login_flow_password]) ra) = 100"
    "level (fuse L (rule_risk_of TYPE_PASSWORD ctx [rule_context_login_flow_password]) ra) = ''critical''"
  using assms by (simp_all add: fuse_def rule_risk_password)

text \<open>
  Claim C10, as amended. For kind TYPE_PASSWORD, target \<open>mypassword123\<close> and the context
  \<open>{is_login_page: True}\<close>, on a new layer of any level and with any library: the rule
  engine triggers exactly the rule \<open>context_login_flow_password\<close> (the rule
  \<open>password_input\<close> is bound to the kind TYPE and is skipped), the fused assessment
  has score 100 and level critical, and \<open>check_action\<close> returns what the confirmation
  block returns.
\<close>

theorem password_on_login_page:
  "\<exists>ctx rule_risk ra.
      analyze L default_patterns TYPE_PASSWORD ''mypassword123'' [(''is_login_page'', PBool True)]
        = Inr ctx
    \<and> evaluate_rules L default_rules TYPE_PASSWORD ''mypassword123'' ctx
        = Inr ([rule_context_login_flow_password], rule_risk)
    \<and> triggered_rules rule_risk = [''context_login_flow_password'']
    \<and> assess_risk TYPE_PASSWORD ''mypassword123'' ctx = Inr ra
    \<and> score (fuse L rule_risk ra) = 100 \<and> level (fuse L rule_risk ra) = ''critical''
    \<and> check_action L TYPE_PASSWORD ''mypassword123'' (Some [(''is_login_page'', PBool True)])
          (SecurityLayer lvl) w
        = Inr (confirm_path L TYPE_PASSWORD ''mypassword123'' (fuse L rule_risk ra) ctx
                 [rule_context_login_flow_password]
                 (fst (generate_action_hash L TYPE_PASSWORD ''mypassword123'' ctx
                        (snd (enter L TYPE_PASSWORD ''mypassword123''
                               (Some [(''is_login_page'', PBool True)]) (SecurityLayer lvl) w))))
                 (fst (enter L TYPE_PASSWORD ''mypassword123''
                        (Some [(''is_login_page'', PBool True)]) (SecurityLayer lvl) w))
                 (snd (generate_action_hash L TYPE_PASSWORD ''mypassword123'' ctx
                        (snd (enter L TYPE_PASSWORD ''mypassword123''
                               (Some [(''is_login_page'', PBool True)]) (SecurityLayer lvl) w)))))"
proof -
  have c: "confirmed_actions (SecurityLayer lvl) = {}" and r: "rules (SecurityLayer lvl) = default_rules"
    and p: "patterns (SecurityLayer lvl) = default_patterns"
    by (simp_all add: SecurityLayer_def)
  show ?thesis
  proof (rule password_check[OF c r, of L "''mypassword123''" w])
    fix ctx ra
    assume a: "analyze L (patterns (SecurityLayer lvl)) TYPE_PASSWORD ''mypassword123''
        [(''is_login_page'', PBool True)] = Inr ctx"
      "evaluate_rules L default_rules TYPE_PASSWORD ''mypassword123'' ctx =
       Inr ([rule_context_login_flow_password],
            rule_risk_of TYPE_PASSWORD ctx [rule_context_login_flow_password])"
      "assess_risk TYPE_PASSWORD ''mypassword123'' ctx = Inr ra" "score ra = 100"
      "level ra = ''critical''"
      "check_action L TYPE_PASSWORD ''mypassword123'' (Some [(''is_login_page'', PBool True)])
          (SecurityLayer lvl) w =
       Inr (confirm_path L TYPE_PASSWORD ''mypassword123''
              (fuse L (rule_risk_of TYPE_PASSWORD ctx [rule_context_login_flow_password]) ra) ctx
              [rule_context_login_flow_password]
              (fst (generate_action_hash L TYPE_PASSWORD ''mypassword123'' ctx
                      (snd (enter L TYPE_PASSWORD ''mypassword123'' (Some [(''is_login_page'', PBool True)]) (SecurityLayer lvl) w))))
              (fst (enter L TYPE_PASSWORD ''mypassword123'' (Some [(''is_login_page'', PBool True)]) (SecurityLayer lvl) w))
              (snd (generate_action_hash L TYPE_PASSWORD ''mypassword123'' ctx
                      (snd (enter L TYPE_PASSWORD ''mypassword123'' (Some [(''is_login_page'', PBool True)]) (SecurityLayer lvl) w)))))"
    show ?thesis
      apply (rule exI[of _ ctx])
      apply (rule exI[of _ "rule_risk_of TYPE_PASSWORD ctx [rule_context_login_flow_password]"])
      apply (rule exI[of _ ra])
      using a p by (simp add: rule_risk_password fuse_password)
  qed
qed

lemma name_context_login_flow_password:
  "name rule_context_login_flow_password = ''context_login_flow_password''"
  by (simp add: rule_context_login_flow_password_def)

text \<open>
  Claim C10 as stated fails on the same input: the analysed context has no true
  \<open>contains_passwords\<close> entry, and \<open>password_input\<close> is not among the triggered rules.
\<close>

theorem password_input_rule_not_triggered:
  "(case analyze demo_lib default_patterns TYPE_PASSWORD ''mypassword123''
           [(''is_login_page'', PBool True)] of
      Inl e \<Rightarrow> False
    | Inr ctx \<Rightarrow>
        \<not> flag ctx ''contains_passwords''
        \<and> (case evaluate_rules demo_lib default_rules TYPE_PASSWORD ''mypassword123'' ctx of
             Inl e \<Rightarrow> False
           | Inr (triggered, rule_risk) \<Rightarrow>
               ''password_input'' \<notin> set (map name triggered)
               \<and> ''password_input'' \<notin> set (triggered_rules rule_risk)))"
proof -
  have c: "confirmed_actions (SecurityLayer LOW) = {}" and r: "rules (SecurityLayer LOW) = default_rules"
    and p: "patterns (SecurityLayer LOW) = default_patterns"
    by (simp_all add: SecurityLayer_def)
  obtain ctx where
    an: "analyze demo_lib default_patterns TYPE_PASSWORD ''mypassword123''
           [(''is_login_page'', PBool True)] = Inr ctx"
    and nf: "\<not> flag ctx ''contains_passwords''"
    and ev: "evaluate_rules demo_lib default_rules TYPE_PASSWORD ''mypassword123'' ctx =
       Inr ([rule_context_login_flow_password],
            rule_risk_of TYPE_PASSWORD ctx [rule_context_login_flow_password])"
    using password_check[OF c r, of demo_lib "''mypassword123''"] p by metis
  show ?thesis
    by (simp only: an ev sum.case prod.case nf rule_risk_password list.map
        name_context_login_flow_password) simp
qed

lemma enter_world: "snd (enter L a target raw s w) = w\<lparr>ticks := Suc (ticks w)\<rparr>"
  by (simp add: enter_def add_to_history_def now_def Let_def)

lemma store_hash_stdin: "stdin (snd (store_hash L a target ctx w)) = stdin w"
  by (simp add: store_hash_def Let_def now_def clean_hash_cache_def)

lemma generate_action_hash_stdin: "stdin (snd (generate_action_hash L a target ctx w)) = stdin w"
  by (simp add: generate_action_hash_def store_hash_stdin now_def split: option.splits prod.splits)

lemma request_confirmation_prompt:
  "fst (request_confirmation L {} a target fa ctx triggered w) = fst (get_user_decision L (stdin w))"
proof -
  obtain h w1 where g: "generate_action_hash L a target ctx w = (h, w1)"
    by (cases "generate_action_hash L a target ctx w")
  from generate_action_hash_stdin[of L a target ctx w] g have "stdin w1 = stdin w" by simp
  with g show ?thesis by (simp add: request_confirmation_def split: prod.splits)
qed

lemma analyze_without_urls:
  assumes cu: "dict_get raw ''current_url'' = None"
    and rh: "dict_get raw ''recent_history'' = None"
    and tu: "dict_get raw ''target_url'' = None"
  shows "\<exists>ctx. analyze L pats a target raw = Inr ctx"
proof -
  let ?c1 = "analyze_patterns L pats target raw"
  have u: "get_or ?c1 ''current_url'' (PStr []) = PStr []"
    using cu by (simp add: get_or_def analyze_patterns_get)
  have p: "analyze_page L (PStr []) ?c1 = Inr ?c1" by (simp add: analyze_page_def)
  have t: "get_or ?c1 ''target_url'' (PStr target) = PStr target"
    using tu by (simp add: get_or_def analyze_patterns_get)
  obtain c4 where n: "analyze_navigation L a target (PStr []) ?c1 = Inr c4"
    and r4: "dict_get c4 ''recent_history'' = None"
  proof (cases "is_navigation_kind a \<and> target \<noteq> []")
    case True
    then have "analyze_navigation L a target (PStr []) ?c1
        = Inr (dict_update ?c1 (analyze_navigation_url L target (PStr [])))"
      by (simp add: analyze_navigation_def Let_def t)
    moreover have "dict_get (dict_update ?c1 (analyze_navigation_url L target (PStr []))) ''recent_history'' = None"
      using rh by (simp add: analyze_navigation_url_def dict_get_set analyze_patterns_get)
    ultimately show thesis using that by blast
  next
    case False
    then have "analyze_navigation L a target (PStr []) ?c1 = Inr ?c1"
      using t by (auto simp add: analyze_navigation_def Let_def)
    moreover have "dict_get ?c1 ''recent_history'' = None"
      using rh by (simp add: analyze_patterns_get)
    ultimately show thesis using that by blast
  qed
  have "dict_get (analyze_keywords L target) ''recent_history'' = None"
    by (rule analyze_keywords_none) (simp add: keyword_categories)
  then have h: "dict_get (dict_update c4 (analyze_keywords L target)) ''recent_history'' = None"
    using r4 by (simp add: dict_get_update_none)
  show ?thesis
    by (simp add: analyze_def Let_def u p n h)
qed

lemma navigation_check_returns:
  assumes nav: "a = NAVIGATE \<or> a = NAVIGATE_EXTERNAL"
    and c: "confirmed_actions s = {}"
    and an: "analyze L (patterns s) a target (raw_context raw) = Inr ctx"
  shows "\<exists>allowed fa s' w'. check_action L a target raw s w = Inr ((allowed, fa), s', w')"
proof -
  obtain s1 w1 where en: "enter L a target raw s w = (s1, w1)" by (cases "enter L a target raw s w")
  obtain h w2 where gh: "generate_action_hash L a target ctx w1 = (h, w2)"
    by (cases "generate_action_hash L a target ctx w1")
  from analyze_confidence[OF an] obtain cf where "dict_get ctx ''confidence'' = Some (PNum cf)"
    by blast
  from assess_risk_ok[OF this] obtain ra where ar: "assess_risk a target ctx = Inr ra" by blast
  have fr: "h \<notin> confirmed_actions s" using c by simp
  from check_action_fresh[OF en an gh fr evaluate_rules_navigation_ok[OF nav] ar]
  show ?thesis by (metis prod.collapse)
qed

text \<open>
  Claim C2. For an action that is not memoized and under every level: when the fused
  score is above 20, \<open>check_action\<close> asks the confirmation requester, adds the hash to the
  confirmed set exactly on an approve-all answer, logs the outcome to the audit logger,
  calls every registered callback with the event, and returns the answer as the allowed
  flag.
\<close>

theorem over_threshold_goes_to_confirmation:
  assumes en: "enter L a target raw s w = (s1, w1)"
    and an: "analyze L (patterns s) a target (raw_context raw) = Inr ctx"
    and gh: "generate_action_hash L a target ctx w1 = (h, w2)"
    and fresh: "h \<notin> confirmed_actions s"
    and ev: "evaluate_rules L (rules s) a target ctx = Inr (triggered, rule_risk)"
    and ar: "assess_risk a target ctx = Inr ra"
    and over: "score (fuse L rule_risk ra) > 20"
    and rc: "request_confirmation L (auto_confirm_hashes s) a target (fuse L rule_risk ra) ctx
               triggered w2 = ((allowed, reason), w3)"
  shows "\<exists>s' w' t.
      check_action L a target raw s w = Inr ((allowed, fuse L rule_risk ra), s', w')
    \<and> confirmed_actions s' =
        (if allowed \<and> reason = ''approved_all'' then insert h (confirmed_actions s)
         else confirmed_actions s)
    \<and> audit_logger s' =
        log_event (action_event L t a target (fuse L rule_risk ra) allowed ctx) (audit_logger s)
    \<and> delivered w' = delivered w
         @ map (\<lambda>(i, callback).
                  (i, callback_event a target (fuse L rule_risk ra) ctx allowed reason,
                   callback (callback_event a target (fuse L rule_risk ra) ctx allowed reason)))
             (enumerate 0 (confirmation_callbacks s))"
  by (rule check_action_confirmation[OF en an gh fresh ev ar over rc])

lemma layer_fields:
  "confirmed_actions (SecurityLayer lvl) = {}" "rules (SecurityLayer lvl) = default_rules"
  "patterns (SecurityLayer lvl) = default_patterns" "auto_confirm_hashes (SecurityLayer lvl) = {}"
  "audit_logger (SecurityLayer lvl) = AuditLogger 1000"
  "confirmation_callbacks (SecurityLayer lvl) = []" "security_level (SecurityLayer lvl) = lvl"
  by (simp_all add: SecurityLayer_def)

lemma demo_answers:
  "fst (get_user_decision demo_lib [Line ''a'']) = (True, ''approved_all'')"
  "fst (get_user_decision demo_lib [Line ''y'']) = (True, ''approved'')"
  by (simp_all add: response_of_def demo_lib_def)

lemma first_event_total: "total_events (get_stats (log_event e (AuditLogger m))) = 1"
  by (simp add: get_stats_def log_event_stats AuditLogger_def count_outcome_def count_level_def)

text \<open>
  Witness for C2: scenario A under MEDIUM, answered \<open>a\<close>. The action is allowed, its hash
  is the one confirmed action, one event is logged and no callback is registered.
\<close>

theorem over_threshold_goes_to_confirmation_witness:
  "\<exists>fa s' w' h.
      check_action demo_lib TYPE_PASSWORD ''mypassword123'' (Some [(''is_login_page'', PBool True)])
        (SecurityLayer MEDIUM) (demo_world [Line ''a'']) = Inr ((True, fa), s', w')
    \<and> score fa = 100 \<and> confirmed_actions s' = {h}
    \<and> total_events (get_stats (audit_logger s')) = 1 \<and> delivered w' = []"
proof -
  let ?raw = "Some [(''is_login_page'', PBool True)]"
  let ?s = "SecurityLayer MEDIUM" and ?w = "demo_world [Line ''a'']"
  let ?t = "''mypassword123''"
  obtain ctx ra where
    an: "analyze demo_lib (patterns ?s) TYPE_PASSWORD ?t [(''is_login_page'', PBool True)] = Inr ctx"
    and ev: "evaluate_rules demo_lib default_rules TYPE_PASSWORD ?t ctx =
       Inr ([rule_context_login_flow_password],
            rule_risk_of TYPE_PASSWORD ctx [rule_context_login_flow_password])"
    and ar: "assess_risk TYPE_PASSWORD ?t ctx = Inr ra" and sc: "score ra = 100"
    and lv: "level ra = ''critical''"
    using password_check[where s="SecurityLayer MEDIUM" and L=demo_lib and target="?t", OF layer_fields(1,2)]
    by metis
  let ?rr = "rule_risk_of TYPE_PASSWORD ctx [rule_context_login_flow_password]"
  let ?E = "enter demo_lib TYPE_PASSWORD ?t ?raw ?s ?w"
  let ?G = "generate_action_hash demo_lib TYPE_PASSWORD ?t ctx (snd ?E)"
  let ?R = "request_confirmation demo_lib (auto_confirm_hashes ?s) TYPE_PASSWORD ?t
              (fuse demo_lib ?rr ra) ctx [rule_context_login_flow_password] (snd ?G)"
  have en: "?E = (fst ?E, snd ?E)" by simp
  have an': "analyze demo_lib (patterns ?s) TYPE_PASSWORD ?t (raw_context ?raw) = Inr ctx"
    using an by (simp add: raw_context_def)
  have gh: "?G = (fst ?G, snd ?G)" by simp
  have fr: "fst ?G \<notin> confirmed_actions ?s" by (simp add: layer_fields)
  have ev': "evaluate_rules demo_lib (rules ?s) TYPE_PASSWORD ?t ctx
      = Inr ([rule_context_login_flow_password], ?rr)"
    using ev by (simp add: layer_fields)
  have over: "score (fuse demo_lib ?rr ra) > 20" using fuse_password(1)[OF sc lv] by simp
  have st: "stdin (snd ?G) = [Line ''a'']"
    by (simp add: generate_action_hash_stdin enter_world demo_world_def)
  have "fst ?R = (True, ''approved_all'')"
    unfolding layer_fields request_confirmation_prompt st by (rule demo_answers)
  then have rc: "?R = ((True, ''approved_all''), snd ?R)" by (metis prod.collapse)
  from over_threshold_goes_to_confirmation[OF en an' gh fr ev' ar over rc]
  obtain s' w' t where
    "check_action demo_lib TYPE_PASSWORD ?t ?raw ?s ?w = Inr ((True, fuse demo_lib ?rr ra), s', w')"
    "confirmed_actions s' = {fst ?G}"
    "audit_logger s' = log_event (action_event demo_lib t TYPE_PASSWORD ?t (fuse demo_lib ?rr ra) True ctx)
        (AuditLogger 1000)"
    "delivered w' = []"
    by (auto simp add: layer_fields demo_world_def)
  then show ?thesis
    using fuse_password(1)[OF sc lv] by (auto simp add: first_event_total)
qed

text \<open>
  Witness for C1 as amended: scenario A under HIGH, answered \<open>y\<close>.
\<close>

theorem high_level_danger_is_prompted_witness:
  "security_level (SecurityLayer HIGH) = HIGH
   \<and> (\<exists>fa s' w'.
        check_action demo_lib TYPE_PASSWORD ''mypassword123'' (Some [(''is_login_page'', PBool True)])
          (SecurityLayer HIGH) (demo_world [Line ''y'']) = Inr ((True, fa), s', w')
      \<and> level fa = ''critical'' \<and> 60 \<le> score fa
      \<and> total_events (get_stats (audit_logger s')) = 1)"
proof -
  let ?raw = "Some [(''is_login_page'', PBool True)]"
  let ?s = "SecurityLayer HIGH" and ?w = "demo_world [Line ''y'']"
  let ?t = "''mypassword123''"
  obtain ctx ra where
    an: "analyze demo_lib (patterns ?s) TYPE_PASSWORD ?t [(''is_login_page'', PBool True)] = Inr ctx"
    and ev: "evaluate_rules demo_lib default_rules TYPE_PASSWORD ?t ctx =
       Inr ([rule_context_login_flow_password],
            rule_risk_of TYPE_PASSWORD ctx [rule_context_login_flow_password])"
    and ar: "assess_risk TYPE_PASSWORD ?t ctx = Inr ra" and sc: "score ra = 100"
    and lv: "level ra = ''critical''"
    using password_check[where s="SecurityLayer HIGH" and L=demo_lib and target="?t", OF layer_fields(1,2)]
    by metis
  let ?rr = "rule_risk_of TYPE_PASSWORD ctx [rule_context_login_flow_password]"
  let ?E = "enter demo_lib TYPE_PASSWORD ?t ?raw ?s ?w"
  let ?G = "generate_action_hash demo_lib TYPE_PASSWORD ?t ctx (snd ?E)"
  let ?R = "request_confirmation demo_lib (auto_confirm_hashes ?s) TYPE_PASSWORD ?t
              (fuse demo_lib ?rr ra) ctx [rule_context_login_flow_password] (snd ?G)"
  have en: "?E = (fst ?E, snd ?E)" by simp
  have an': "analyze demo_lib (patterns ?s) TYPE_PASSWORD ?t (raw_context ?raw) = Inr ctx"
    using an by (simp add: raw_context_def)
  have gh: "?G = (fst ?G, snd ?G)" by simp
  have fr: "fst ?G \<notin> confirmed_actions ?s" by (simp add: layer_fields)
  have ev': "evaluate_rules demo_lib (rules ?s) TYPE_PASSWORD ?t ctx
      = Inr ([rule_context_login_flow_password], ?rr)"
    using ev by (simp add: layer_fields)
  have high: "security_level ?s = HIGH" by (simp add: layer_fields)
  have danger: "level (fuse demo_lib ?rr ra) \<in> set [''high'', ''critical'']"
    using fuse_password(2)[OF sc lv] by simp
  have st: "stdin (snd ?G) = [Line ''y'']"
    by (simp add: generate_action_hash_stdin enter_world demo_world_def)
  have "fst ?R = (True, ''approved'')"
    unfolding layer_fields request_confirmation_prompt st by (rule demo_answers)
  then have rc: "?R = ((True, ''approved''), snd ?R)" by (metis prod.collapse)
  from high_level_danger_is_prompted[OF en an' gh fr ev' ar high danger rc]
  obtain s' w' t where
    "60 \<le> score (fuse demo_lib ?rr ra)"
    "check_action demo_lib TYPE_PASSWORD ?t ?raw ?s ?w = Inr ((True, fuse demo_lib ?rr ra), s', w')"
    "audit_logger s' = log_event (action_event demo_lib t TYPE_PASSWORD ?t (fuse demo_lib ?rr ra) True ctx)
        (AuditLogger 1000)"
    by (auto simp add: layer_fields)
  then show ?thesis
    using fuse_password(2)[OF sc lv] high by (auto simp add: first_event_total)
qed

text \<open>
  Witness for C3: scenario A under LOW with no input left (the prompt reads end of file).
\<close>

theorem check_action_fuses_assessments_witness:
  "(\<forall>xs. set (list_of_set demo_lib xs) = set xs)
   \<and> \<not> memoized demo_lib TYPE_PASSWORD ''mypassword123'' (Some [(''is_login_page'', PBool True)])
         (SecurityLayer LOW) (demo_world [])
   \<and> (\<exists>allowed fa s' w' ctx triggered rule_risk ra.
         check_action demo_lib TYPE_PASSWORD ''mypassword123'' (Some [(''is_login_page'', PBool True)])
           (SecurityLayer LOW) (demo_world []) = Inr ((allowed, fa), s', w')
       \<and> analyze demo_lib (patterns (SecurityLayer LOW)) TYPE_PASSWORD ''mypassword123''
           (raw_context (Some [(''is_login_page'', PBool True)])) = Inr ctx
       \<and> evaluate_rules demo_lib (rules (SecurityLayer LOW)) TYPE_PASSWORD ''mypassword123'' ctx
           = Inr (triggered, rule_risk)
       \<and> assess_risk TYPE_PASSWORD ''mypassword123'' ctx = Inr ra
       \<and> score fa = max (score rule_risk) (score ra)
       \<and> set (triggered_rules fa) = set (triggered_rules rule_risk) \<union> set (triggered_rules ra)
       \<and> recommendations fa = recommendations ra)"
proof -
  let ?raw = "Some [(''is_login_page'', PBool True)]"
  let ?s = "SecurityLayer LOW" and ?w = "demo_world []"
  have sets: "\<And>xs. set (list_of_set demo_lib xs) = set xs" by (simp add: demo_lib_def)
  have nm: "\<not> memoized demo_lib TYPE_PASSWORD ''mypassword123'' ?raw ?s ?w"
    by (rule not_memoized_initially) (simp add: layer_fields)
  obtain allowed fa s' w' where
    ok: "check_action demo_lib TYPE_PASSWORD ''mypassword123'' ?raw ?s ?w = Inr ((allowed, fa), s', w')"
    using password_check[where s="SecurityLayer LOW" and L=demo_lib and target="''mypassword123''"
        and w="?w", OF layer_fields(1,2)]
    by (metis prod.collapse)
  from check_action_fuses_assessments[OF ok nm sets] ok sets nm
  show ?thesis by blast
qed

text \<open>
  Witness for C7: scenario B, a navigation to \<open>https://example.com\<close> with no context.
\<close>

theorem navigation_score_at_most_25_witness:
  "\<exists>allowed fa s' w'.
      check_action demo_lib NAVIGATE ''https://example.com'' None (SecurityLayer MEDIUM)
        (demo_world []) = Inr ((allowed, fa), s', w')
    \<and> score fa \<le> 25"
proof -
  have "\<exists>ctx. analyze demo_lib (patterns (SecurityLayer MEDIUM)) NAVIGATE ''https://example.com''
      (raw_context None) = Inr ctx"
    by (rule analyze_without_urls) (simp_all add: raw_context_def)
  then obtain ctx where an: "analyze demo_lib (patterns (SecurityLayer MEDIUM)) NAVIGATE
      ''https://example.com'' (raw_context None) = Inr ctx" by blast
  have nav: "NAVIGATE = NAVIGATE \<or> NAVIGATE = NAVIGATE_EXTERNAL" by simp
  from navigation_check_returns[OF nav layer_fields(1) an]
  obtain allowed fa s' w' where
    ok: "check_action demo_lib NAVIGATE ''https://example.com'' None (SecurityLayer MEDIUM)
        (demo_world []) = Inr ((allowed, fa), s', w')" by blast
  from navigation_score_at_most_25[OF nav ok] ok show ?thesis by blast
qed

end
